theory Spec2Isabelle
  imports Main "HOL-Library.Sublist"
begin

section \<open>The BIG-IP LTM monitor resource (resource\_bigip\_ltm\_monitor.go)\<close>

text \<open>
  A shallow embedding of the monitor resource of the provider. Go strings are byte
  sequences and are modelled by \<open>string\<close> (a list of 8-bit characters). A Go \<open>error\<close>
  is modelled by the text its \<open>Error()\<close> method returns, and a possibly-nil error by an
  option: \<open>None\<close> is \<open>nil\<close>. The \<open>%s\<close> and \<open>%v\<close> verbs of \<open>fmt\<close> print a string, and the
  text of an error, as they are.
\<close>

subsection \<open>String helpers of the Go standard library\<close>

type_synonym go_error = string

text \<open>\<open>strings.HasPrefix(s, prefix)\<close>: \<open>len(s) >= len(prefix) && s[0:len(prefix)] == prefix\<close>.\<close>

definition HasPrefix :: "string \<Rightarrow> string \<Rightarrow> bool" where
  "HasPrefix s pre = (length pre \<le> length s \<and> take (length pre) s = pre)"

text \<open>\<open>strings.TrimPrefix(s, prefix)\<close>: \<open>s[len(prefix):]\<close> when \<open>s\<close> has the prefix, else \<open>s\<close>.\<close>

definition TrimPrefix :: "string \<Rightarrow> string \<Rightarrow> string" where
  "TrimPrefix s pre = (if HasPrefix s pre then drop (length pre) s else s)"

text \<open>\<open>strings.Join(elems, sep)\<close>.\<close>

fun Join :: "string list \<Rightarrow> string \<Rightarrow> string" where
  "Join [] sep = []"
| "Join [e] sep = e"
| "Join (e # es) sep = e @ sep @ Join es sep"

subsection \<open>The helpers of the resource\<close>

text \<open>
  \<open>validateParent(v, k)\<close> returns the warnings and the errors; a nil slice is the empty
  list. The schema gives the field the type \<open>TypeString\<close>, so \<open>v.(string)\<close> is a string.
\<close>

definition validateParent :: "string \<Rightarrow> string \<Rightarrow> string list \<times> go_error list" where
  "validateParent v k =
     (let p = v in
      if p = ''/Common/http'' \<or> p = ''/Common/https'' \<or> p = ''/Common/icmp''
         \<or> p = ''/Common/gateway-icmp'' \<or> p = ''/Common/tcp'' \<or> p = ''/Common/tcp-half-open''
      then ([], [])
      else ([], [''parent must be one of /Common/http, /Common/https, /Common/icmp, /Common/gateway-icmp, /Common/tcp-half-open,  or /Common/tcp'']))"

definition monitorParent :: "string \<Rightarrow> string" where
  "monitorParent s = TrimPrefix s ''/Common/''"

text \<open>
  The \<open>StateFunc\<close> of the \<open>send\<close> field is
  \<open>strings.Replace(s, "\r\n", "\\r\\n", -1)\<close>: with a negative count, the library scans
  \<open>s\<close> from the left; wherever the two bytes CR LF start it writes the four bytes
  backslash, r, backslash, n and goes on behind the two bytes, and it copies every
  other byte.
\<close>

definition CR :: char where "CR = CHR 0x0D"
definition LF :: char where "LF = CHR 0x0A"

definition crlf :: string where
  "crlf = [CR, LF]"

definition escaped_crlf :: string where
  "escaped_crlf = [CHR 0x5C, CHR ''r'', CHR 0x5C, CHR ''n'']"

fun send_StateFunc :: "string \<Rightarrow> string" where
  "send_StateFunc (a # b # rest) =
     (if a = CR \<and> b = LF then escaped_crlf @ send_StateFunc rest
      else a # send_StateFunc (b # rest))"
| "send_StateFunc [a] = [a]"
| "send_StateFunc [] = []"

subsection \<open>The data of the resource\<close>

text \<open>
  \<open>bigip.Monitor\<close> is a struct of the client library; the record has the fields the
  resource reads and writes. Go's \<open>int\<close> values are only copied, never computed with,
  so they are integers here. \<open>zero_Monitor\<close> is the zero value \<open>bigip.Monitor{}\<close>.
\<close>

record monitor =
  FullPath :: string
  ParentMonitor :: string
  DefaultsFrom :: string
  Interval :: int
  Timeout :: int
  SendString :: string
  ReceiveString :: string
  ReceiveDisable :: string
  Reverse :: string
  Transparent :: string
  IPDSCP :: int
  TimeUntilUp :: int
  ManualResume :: string
  Destination :: string

definition zero_Monitor :: monitor where
  "zero_Monitor =
     \<lparr>FullPath = [], ParentMonitor = [], DefaultsFrom = [], Interval = 0, Timeout = 0,
      SendString = [], ReceiveString = [], ReceiveDisable = [], Reverse = [],
      Transparent = [], IPDSCP = 0, TimeUntilUp = 0, ManualResume = [], Destination = []\<rparr>"

text \<open>
  \<open>schema.ResourceData\<close>: the resource Id (\<open>d.Id()\<close>, \<open>d.SetId(v)\<close>) and one field for
  each key of the schema, of the type the schema gives it: \<open>attr_x d\<close> is
  \<open>d.Get("x").(T)\<close>, and \<open>d\<lparr>attr_x := v\<rparr>\<close> is \<open>d.Set("x", v)\<close>.
\<close>

record resource_data =
  resource_id :: string
  attr_name :: string
  attr_parent :: string
  attr_defaults_from :: string
  attr_interval :: int
  attr_timeout :: int
  attr_send :: string
  attr_receive :: string
  attr_receive_disable :: string
  attr_reverse :: string
  attr_transparent :: string
  attr_manual_resume :: string
  attr_ip_dscp :: int
  attr_time_until_up :: int
  attr_destination :: string

definition SetId :: "string \<Rightarrow> resource_data \<Rightarrow> resource_data" where
  "SetId v d = d\<lparr>resource_id := v\<rparr>"

subsection \<open>The remote client and the world\<close>

text \<open>
  The client \<open>*bigip.BigIP\<close> is a parameter: four methods over a state \<open>'c\<close> of the
  remote device, each returning its results and the new state. \<open>Monitors\<close> returns the
  slice (\<open>None\<close> is the nil slice) and the error.
\<close>

record 'c BigIP =
  CreateMonitor :: "string \<Rightarrow> string \<Rightarrow> string \<Rightarrow> int \<Rightarrow> int \<Rightarrow> string \<Rightarrow> string \<Rightarrow> string
                    \<Rightarrow> 'c \<Rightarrow> go_error option \<times> 'c"
  Monitors :: "'c \<Rightarrow> (monitor list option \<times> go_error option) \<times> 'c"
  ModifyMonitor :: "string \<Rightarrow> string \<Rightarrow> monitor \<Rightarrow> 'c \<Rightarrow> go_error option \<times> 'c"
  DeleteMonitor :: "string \<Rightarrow> string \<Rightarrow> 'c \<Rightarrow> go_error option \<times> 'c"

text \<open>A call of the client with its arguments, as the resource issues it.\<close>

datatype call =
  CreateMonitor_call string string string int int string string string
| Monitors_call
| ModifyMonitor_call string string monitor
| DeleteMonitor_call string string

datatype api = API_CreateMonitor | API_Monitors | API_ModifyMonitor | API_DeleteMonitor

fun api_of :: "call \<Rightarrow> api" where
  "api_of (CreateMonitor_call n p df i t s r rd) = API_CreateMonitor"
| "api_of Monitors_call = API_Monitors"
| "api_of (ModifyMonitor_call n p m) = API_ModifyMonitor"
| "api_of (DeleteMonitor_call n p) = API_DeleteMonitor"

text \<open>
  The world outside the resource: the state of the remote device, the client calls
  issued so far, each with the error it returned, and the lines given to the logger.
\<close>

record 'c world =
  remote :: 'c
  calls :: "(call \<times> go_error option) list"
  log_lines :: "string list"

definition log_Printf :: "string \<Rightarrow> 'c world \<Rightarrow> 'c world" where
  "log_Printf msg w = w\<lparr>log_lines := log_lines w @ [msg]\<rparr>"

definition client_CreateMonitor ::
  "'c BigIP \<Rightarrow> string \<Rightarrow> string \<Rightarrow> string \<Rightarrow> int \<Rightarrow> int \<Rightarrow> string \<Rightarrow> string \<Rightarrow> string
   \<Rightarrow> 'c world \<Rightarrow> go_error option \<times> 'c world" where
  "client_CreateMonitor client n p df i t s r rd w =
     (case CreateMonitor client n p df i t s r rd (remote w) of
        (err, c) \<Rightarrow>
          (err, w\<lparr>remote := c, calls := calls w @ [(CreateMonitor_call n p df i t s r rd, err)]\<rparr>))"

definition client_Monitors ::
  "'c BigIP \<Rightarrow> 'c world \<Rightarrow> (monitor list option \<times> go_error option) \<times> 'c world" where
  "client_Monitors client w =
     (case Monitors client (remote w) of
        ((monitors, err), c) \<Rightarrow>
          ((monitors, err), w\<lparr>remote := c, calls := calls w @ [(Monitors_call, err)]\<rparr>))"

definition client_ModifyMonitor ::
  "'c BigIP \<Rightarrow> string \<Rightarrow> string \<Rightarrow> monitor \<Rightarrow> 'c world \<Rightarrow> go_error option \<times> 'c world" where
  "client_ModifyMonitor client n p m w =
     (case ModifyMonitor client n p m (remote w) of
        (err, c) \<Rightarrow>
          (err, w\<lparr>remote := c, calls := calls w @ [(ModifyMonitor_call n p m, err)]\<rparr>))"

definition client_DeleteMonitor ::
  "'c BigIP \<Rightarrow> string \<Rightarrow> string \<Rightarrow> 'c world \<Rightarrow> go_error option \<times> 'c world" where
  "client_DeleteMonitor client n p w =
     (case DeleteMonitor client n p (remote w) of
        (err, c) \<Rightarrow>
          (err, w\<lparr>remote := c, calls := calls w @ [(DeleteMonitor_call n p, err)]\<rparr>))"

subsection \<open>The lifecycle operations\<close>

text \<open>
  Each operation takes the client, the resource data and the world, and returns its
  error (\<open>None\<close> is \<open>nil\<close>), the resource data and the world as it leaves them.

  The loop of \<open>Read\<close> over the monitors: at the first monitor whose \<open>FullPath\<close> is the
  name it sets the fourteen fields and returns (\<open>Some\<close>); \<open>None\<close> when the loop ends.
\<close>

fun Read_range :: "monitor list \<Rightarrow> string \<Rightarrow> resource_data \<Rightarrow> resource_data option" where
  "Read_range [] name d = None"
| "Read_range (m # ms) name d =
     (if FullPath m = name then
        Some (d\<lparr>attr_name := FullPath m,
                attr_parent := ParentMonitor m,
                attr_defaults_from := DefaultsFrom m,
                attr_interval := Interval m,
                attr_timeout := Timeout m,
                attr_send := SendString m,
                attr_receive := ReceiveString m,
                attr_receive_disable := ReceiveDisable m,
                attr_reverse := Reverse m,
                attr_transparent := Transparent m,
                attr_ip_dscp := IPDSCP m,
                attr_time_until_up := TimeUntilUp m,
                attr_manual_resume := ManualResume m,
                attr_destination := Destination m\<rparr>)
      else Read_range ms name d)"

definition resourceBigipLtmMonitorRead ::
  "'c BigIP \<Rightarrow> resource_data \<Rightarrow> 'c world \<Rightarrow> go_error option \<times> resource_data \<times> 'c world" where
  "resourceBigipLtmMonitorRead client d w =
     (let name = resource_id d;
          parent = monitorParent (attr_parent d);
          w1 = log_Printf (''[DEBUG] Reading Monitor '' @ name @ ''::'' @ parent) w
      in case client_Monitors client w1 of
           ((monitors, err), w2) \<Rightarrow>
             (case err of
                Some e \<Rightarrow> (Some (''Unable to retrieve Monitors: '' @ e), d, w2)
              | None \<Rightarrow>
                 (case monitors of
                    None \<Rightarrow>
                      (None, SetId [] d,
                       log_Printf (''[DEBUG] Monitors not found, removing Monitor '' @ name
                                   @ ''::'' @ parent @ '' from state'') w2)
                  | Some ms \<Rightarrow>
                      (case Read_range ms name d of
                         Some d' \<Rightarrow> (None, d', w2)
                       | None \<Rightarrow>
                           (None, SetId [] d,
                            log_Printf (''[DEBUG] Monitor '' @ name @ ''::'' @ parent
                                        @ '' not found, removing it from state'') w2)))))"

text \<open>The loop of \<open>Exists\<close>: true at the first monitor whose \<open>FullPath\<close> is the name.\<close>

fun Exists_range :: "monitor list \<Rightarrow> string \<Rightarrow> bool" where
  "Exists_range [] name = False"
| "Exists_range (m # ms) name = (if FullPath m = name then True else Exists_range ms name)"

definition resourceBigipLtmMonitorExists ::
  "'c BigIP \<Rightarrow> resource_data \<Rightarrow> 'c world \<Rightarrow> (bool \<times> go_error option) \<times> 'c world" where
  "resourceBigipLtmMonitorExists client d w =
     (let name = resource_id d;
          parent = monitorParent (attr_parent d);
          w1 = log_Printf (''[DEBUG] Checking if Monitor '' @ name @ ''::'' @ parent @ '' exists'') w
      in case client_Monitors client w1 of
           ((monitors, err), w2) \<Rightarrow>
             (case err of
                Some e \<Rightarrow> ((False, Some (''Unable to retrieve Monitors: '' @ e)), w2)
              | None \<Rightarrow>
                 (case monitors of
                    None \<Rightarrow> ((False, None), log_Printf ''[DEBUG] Monitors not found'' w2)
                  | Some ms \<Rightarrow> ((Exists_range ms name, None), w2))))"

text \<open>
  The struct literal \<open>&bigip.Monitor{Interval: ..., ..., Destination: ...}\<close> of \<open>Update\<close>:
  the zero value with the eleven fields the literal names.
\<close>

definition Update_request :: "resource_data \<Rightarrow> monitor" where
  "Update_request d =
     zero_Monitor\<lparr>Interval := attr_interval d,
       Timeout := attr_timeout d,
       SendString := attr_send d,
       ReceiveString := attr_receive d,
       ReceiveDisable := attr_receive_disable d,
       Reverse := attr_reverse d,
       Transparent := attr_transparent d,
       IPDSCP := attr_ip_dscp d,
       TimeUntilUp := attr_time_until_up d,
       ManualResume := attr_manual_resume d,
       Destination := attr_destination d\<rparr>"

definition resourceBigipLtmMonitorUpdate ::
  "'c BigIP \<Rightarrow> resource_data \<Rightarrow> 'c world \<Rightarrow> go_error option \<times> resource_data \<times> 'c world" where
  "resourceBigipLtmMonitorUpdate client d w =
     (let name = resource_id d;
          parent = monitorParent (attr_parent d);
          w1 = log_Printf (''[DEBUG] Updating Monitor '' @ name @ ''::'' @ parent) w;
          m = Update_request d
      in case client_ModifyMonitor client name parent m w1 of
           (err, w2) \<Rightarrow>
             (case err of
                Some e \<Rightarrow>
                  (Some (''Error updating Monitor '' @ name @ ''::'' @ parent @ '': '' @ e), d, w2)
              | None \<Rightarrow> resourceBigipLtmMonitorRead client d w2))"

definition resourceBigipLtmMonitorCreate ::
  "'c BigIP \<Rightarrow> resource_data \<Rightarrow> 'c world \<Rightarrow> go_error option \<times> resource_data \<times> 'c world" where
  "resourceBigipLtmMonitorCreate client d w =
     (let name = attr_name d;
          parent = monitorParent (attr_parent d);
          w1 = log_Printf (''[DEBUG] Creating monitor '' @ name @ ''::'' @ parent) w
      in case client_CreateMonitor client name parent (attr_defaults_from d) (attr_interval d)
                (attr_timeout d) (attr_send d) (attr_receive d) (attr_receive_disable d) w1 of
           (err, w2) \<Rightarrow>
             (case err of
                Some e \<Rightarrow> (Some (''Error creating Monitor '' @ name @ '': '' @ e), d, w2)
              | None \<Rightarrow> resourceBigipLtmMonitorUpdate client (SetId name d) w2))"

definition resourceBigipLtmMonitorDelete ::
  "'c BigIP \<Rightarrow> resource_data \<Rightarrow> 'c world \<Rightarrow> go_error option \<times> resource_data \<times> 'c world" where
  "resourceBigipLtmMonitorDelete client d w =
     (let name = resource_id d;
          parent = monitorParent (attr_parent d);
          w1 = log_Printf (''[DEBUG] Deleting Monitor '' @ name @ ''::'' @ parent) w
      in case client_DeleteMonitor client name parent w1 of
           (err, w2) \<Rightarrow>
             (case err of
                Some e \<Rightarrow>
                  (Some (''Error deleting Monitor '' @ name @ ''::'' @ parent @ '': '' @ e), d, w2)
              | None \<Rightarrow> (None, SetId [] d, w2)))"

subsection \<open>The world after the first call of Create and of Update\<close>

text \<open>
  The world in which \<open>Create\<close> goes on after its log line and its \<open>CreateMonitor\<close>
  call, and the one in which \<open>Update\<close> goes on after its log line and its
  \<open>ModifyMonitor\<close> call.
\<close>

definition after_Create :: "'c BigIP \<Rightarrow> resource_data \<Rightarrow> 'c world \<Rightarrow> 'c world" where
  "after_Create client d w =
     snd (client_CreateMonitor client (attr_name d) (monitorParent (attr_parent d))
            (attr_defaults_from d) (attr_interval d) (attr_timeout d) (attr_send d)
            (attr_receive d) (attr_receive_disable d)
       (log_Printf (''[DEBUG] Creating monitor '' @ attr_name d @ ''::'' @ monitorParent (attr_parent d)) w))"

definition after_Modify :: "'c BigIP \<Rightarrow> resource_data \<Rightarrow> 'c world \<Rightarrow> 'c world" where
  "after_Modify client d w =
     snd (client_ModifyMonitor client (resource_id d) (monitorParent (attr_parent d)) (Update_request d)
       (log_Printf (''[DEBUG] Updating Monitor '' @ resource_id d @ ''::'' @ monitorParent (attr_parent d)) w))"

subsection \<open>Traces of client calls\<close>

text \<open>
  A sequence of client calls stops at its first error: a call that returned an error
  is the last one.
\<close>

fun stops_at_error :: "(call \<times> go_error option) list \<Rightarrow> bool" where
  "stops_at_error [] = True"
| "stops_at_error ((c, err) # rest) =
     (case err of None \<Rightarrow> stops_at_error rest | Some e \<Rightarrow> rest = [])"

subsection \<open>Example clients and data\<close>

text \<open>
  Three clients at which the theorems are instantiated: one whose device cannot be
  reached, so that every call fails, one that keeps the monitors in a list, where
  creating an existing monitor and modifying or deleting a missing one fail, and one
  whose device accepts every call and lists no monitors (a nil slice).
\<close>

definition unreachable_client :: "unit BigIP" where
  "unreachable_client =
     \<lparr>CreateMonitor = (\<lambda>n p df i t s r rd c. (Some ''connection refused'', c)),
      Monitors = (\<lambda>c. ((None, Some ''connection refused''), c)),
      ModifyMonitor = (\<lambda>n p m c. (Some ''connection refused'', c)),
      DeleteMonitor = (\<lambda>n p c. (Some ''connection refused'', c))\<rparr>"

definition memory_client :: "monitor list BigIP" where
  "memory_client =
     \<lparr>CreateMonitor = (\<lambda>n p df i t s r rd c.
        if n \<in> set (map FullPath c) then (Some ''already exists'', c)
        else (None, c @ [zero_Monitor\<lparr>FullPath := n, ParentMonitor := p, DefaultsFrom := df,
                           Interval := i, Timeout := t, SendString := s, ReceiveString := r,
                           ReceiveDisable := rd\<rparr>])),
      Monitors = (\<lambda>c. ((Some c, None), c)),
      ModifyMonitor = (\<lambda>n p m c.
        if n \<in> set (map FullPath c)
        then (None, map (\<lambda>x. if FullPath x = n
                               then m\<lparr>FullPath := n, ParentMonitor := p,
                                       DefaultsFrom := DefaultsFrom x\<rparr>
                               else x) c)
        else (Some ''not found'', c)),
      DeleteMonitor = (\<lambda>n p c.
        if n \<in> set (map FullPath c) then (None, filter (\<lambda>x. FullPath x \<noteq> n) c)
        else (Some ''not found'', c))\<rparr>"

definition blank_client :: "unit BigIP" where
  "blank_client =
     \<lparr>CreateMonitor = (\<lambda>n p df i t s r rd c. (None, c)),
      Monitors = (\<lambda>c. ((None, None), c)),
      ModifyMonitor = (\<lambda>n p m c. (None, c)),
      DeleteMonitor = (\<lambda>n p c. (None, c))\<rparr>"

definition start :: "'c \<Rightarrow> 'c world" where
  "start c = \<lparr>remote = c, calls = [], log_lines = []\<rparr>"

definition web_config :: resource_data where
  "web_config =
     \<lparr>resource_id = [], attr_name = ''web'', attr_parent = ''/Common/http'',
      attr_defaults_from = ''/Common/http'', attr_interval = 5, attr_timeout = 16,
      attr_send = ''GET /'', attr_receive = ''200 OK'', attr_receive_disable = [],
      attr_reverse = ''disabled'', attr_transparent = ''disabled'',
      attr_manual_resume = ''disabled'', attr_ip_dscp = 0, attr_time_until_up = 0,
      attr_destination = ''*:*''\<rparr>"

definition web_state :: resource_data where
  "web_state = SetId ''web'' web_config"

section \<open>Properties\<close>

subsection \<open>The parent validation\<close>

text \<open>
  C1. For every string \<open>p\<close>, \<open>validateParent\<close> returns no warnings and no errors exactly
  when \<open>p\<close> is one of the six built-in monitor paths; for every other string it returns
  no warnings and exactly one error. The key argument \<open>k\<close> plays no role.
\<close>

theorem validateParent_iff:
  "(validateParent p k = ([], []) \<longleftrightarrow>
      p \<in> {''/Common/http'', ''/Common/https'', ''/Common/icmp'',
           ''/Common/gateway-icmp'', ''/Common/tcp'', ''/Common/tcp-half-open''})
   \<and> (p \<notin> {''/Common/http'', ''/Common/https'', ''/Common/icmp'',
           ''/Common/gateway-icmp'', ''/Common/tcp'', ''/Common/tcp-half-open''}
        \<longrightarrow> fst (validateParent p k) = [] \<and> length (snd (validateParent p k)) = 1)"
  unfolding validateParent_def Let_def by (cases "p = ''/Common/http''") auto

theorem validateParent_iff_witness:
  "validateParent ''/Common/tcp'' ''parent'' = ([], [])
   \<and> fst (validateParent ''/Common/udp'' ''parent'') = []
   \<and> length (snd (validateParent ''/Common/udp'' ''parent'')) = 1"
  using validateParent_iff [of "''/Common/tcp''" "''parent''"]
        validateParent_iff [of "''/Common/udp''" "''parent''"]
  by simp

subsection \<open>The prefix normalisation\<close>

lemma HasPrefix_iff: "HasPrefix s pre \<longleftrightarrow> prefix pre s"
  unfolding HasPrefix_def prefix_def
  by (metis append_eq_conv_conj append_take_drop_id length_append le_add1)

text \<open>
  C7. For every string, \<open>monitorParent\<close> removes exactly one leading \<open>/Common/\<close> when
  the string starts with it (whatever follows the prefix, also a second \<open>/Common/\<close>, is
  returned as it is), and returns a string that does not start with it unchanged.
\<close>

theorem monitorParent_trims_prefix:
  "monitorParent (''/Common/'' @ t) = t
   \<and> (\<not> prefix ''/Common/'' s \<longrightarrow> monitorParent s = s)"
  by (simp add: monitorParent_def TrimPrefix_def HasPrefix_iff)

theorem monitorParent_trims_prefix_witness:
  "monitorParent ''/Common//Common/http'' = ''/Common/http''
   \<and> monitorParent ''http'' = ''http''
   \<and> monitorParent ''/Common'' = ''/Common''"
  using monitorParent_trims_prefix [of "''/Common/http''" "''http''"]
        monitorParent_trims_prefix [of "[]" "''/Common''"]
  by simp

subsection \<open>The state function of the send field\<close>

lemma send_append:
  "\<not> (a \<noteq> [] \<and> last a = CR \<and> b \<noteq> [] \<and> hd b = LF) \<Longrightarrow>
     send_StateFunc (a @ b) = send_StateFunc a @ send_StateFunc b"
proof (induction a rule: send_StateFunc.induct)
  case (1 x y rest)
  then show ?case by (cases "rest = []") (auto simp: CR_def LF_def)
next
  case (2 v)
  then show ?case by (cases b) (auto simp: CR_def LF_def)
next
  case 3
  then show ?case by simp
qed

lemma send_crlf: "send_StateFunc (crlf @ b) = escaped_crlf @ send_StateFunc b"
  by (simp add: crlf_def)

lemma send_hom: "send_StateFunc (a @ crlf @ b) = send_StateFunc a @ escaped_crlf @ send_StateFunc b"
proof -
  have "hd (crlf @ b) \<noteq> LF" by (simp add: crlf_def CR_def LF_def)
  then have "send_StateFunc (a @ (crlf @ b)) = send_StateFunc a @ send_StateFunc (crlf @ b)"
    by (intro send_append) blast
  then show ?thesis by (simp add: send_crlf)
qed

lemma send_id: "\<not> sublist crlf s \<Longrightarrow> send_StateFunc s = s"
proof (induction s rule: send_StateFunc.induct)
  case (1 x y rest)
  then show ?case
    by (auto simp: sublist_Cons_right crlf_def)
qed simp_all

lemma Join_Cons: "gs \<noteq> [] \<Longrightarrow> Join (g # gs) sep = g @ sep @ Join gs sep"
  by (cases gs) simp_all

lemma Join_Cons_Cons: "Join ((x # g) # gs) sep = x # Join (g # gs) sep"
  by (cases gs) simp_all

lemma hd_Join: "g \<noteq> [] \<Longrightarrow> hd (Join (g # gs) sep) = hd g"
  by (cases gs) simp_all

lemma send_segments:
  "\<exists>segs. segs \<noteq> [] \<and> (\<forall>g\<in>set segs. \<not> sublist crlf g)
      \<and> s = Join segs crlf \<and> send_StateFunc s = Join segs escaped_crlf"
proof (induction s rule: send_StateFunc.induct)
  case (1 x y rest)
  show ?case
  proof (cases "x = CR \<and> y = LF")
    case True
    with 1 obtain segs where segs: "segs \<noteq> []" "\<forall>g\<in>set segs. \<not> sublist crlf g"
        "rest = Join segs crlf" "send_StateFunc rest = Join segs escaped_crlf"
      by blast
    have "x # y # rest = Join ([] # segs) crlf"
      using True segs(1,3) by (simp add: Join_Cons crlf_def)
    moreover have "send_StateFunc (x # y # rest) = Join ([] # segs) escaped_crlf"
      using True segs(1,4) by (simp add: Join_Cons)
    moreover have "\<forall>g\<in>set ([] # segs). \<not> sublist crlf g"
      using segs(2) by (simp add: crlf_def)
    ultimately show ?thesis by blast
  next
    case False
    with 1 obtain segs where segs: "segs \<noteq> []" "\<forall>g\<in>set segs. \<not> sublist crlf g"
        "y # rest = Join segs crlf" "send_StateFunc (y # rest) = Join segs escaped_crlf"
      by blast
    then obtain g gs where gs: "segs = g # gs" by (cases segs) auto
    have "x # y # rest = Join ((x # g) # gs) crlf"
      using segs(3) gs by (simp add: Join_Cons_Cons)
    moreover have "send_StateFunc (x # y # rest) = Join ((x # g) # gs) escaped_crlf"
      using False segs(4) gs by (auto simp add: Join_Cons_Cons)
    moreover have "\<not> sublist crlf (x # g)"
    proof
      assume "sublist crlf (x # g)"
      then have "prefix crlf (x # g)"
        using segs(2) gs by (simp add: sublist_Cons_right)
      then have "x = CR" and "g \<noteq> []" and "hd g = LF"
        by (auto simp: crlf_def prefix_def)
      moreover have "hd (Join (g # gs) crlf) = y"
        using segs(3) gs by (metis list.sel(1))
      ultimately show False using False by (simp add: hd_Join)
    qed
    then have "\<forall>h\<in>set ((x # g) # gs). \<not> sublist crlf h"
      using segs(2) gs by simp
    ultimately show ?thesis by blast
  qed
next
  case (2 v)
  have "[v] = Join [[v]] crlf \<and> send_StateFunc [v] = Join [[v]] escaped_crlf \<and> \<not> sublist crlf [v]"
    by (simp add: crlf_def sublist_Cons_right)
  then show ?case by (intro exI [of _ "[[v]]"]) simp
next
  case 3
  have "[] = Join [[]] crlf \<and> send_StateFunc [] = Join [[]] escaped_crlf \<and> \<not> sublist crlf []"
    by (simp add: crlf_def)
  then show ?case by (intro exI [of _ "[[]]"]) simp
qed

text \<open>
  C10. The state function of \<open>send\<close> replaces every occurrence of CR LF by the four
  characters backslash, r, backslash, n and leaves every other character unchanged:
  it maps an occurrence between any two strings to the escaped text between their
  images, it is the identity on a string with no occurrence, and every input is a
  sequence of segments free of CR LF joined by CR LF, whose image is the same segments
  joined by the escaped text.
\<close>

theorem send_StateFunc_replaces_crlf:
  "send_StateFunc (a @ crlf @ b) = send_StateFunc a @ escaped_crlf @ send_StateFunc b
   \<and> (\<not> sublist crlf s \<longrightarrow> send_StateFunc s = s)
   \<and> (\<exists>segs. segs \<noteq> [] \<and> (\<forall>g\<in>set segs. \<not> sublist crlf g)
          \<and> s = Join segs crlf \<and> send_StateFunc s = Join segs escaped_crlf)"
  using send_hom send_id send_segments by blast

theorem send_StateFunc_replaces_crlf_witness:
  "send_StateFunc (''GET /'' @ crlf @ crlf) = ''GET /'' @ escaped_crlf @ escaped_crlf
   \<and> send_StateFunc [CR, CR, LF, LF] = [CR] @ escaped_crlf @ [LF]
   \<and> send_StateFunc ''GET /'' = ''GET /''"
proof -
  have n: "\<not> sublist crlf ''GET /''" "\<not> sublist crlf []" "\<not> sublist crlf [CR]" "\<not> sublist crlf [LF]"
    by (simp_all add: crlf_def sublist_Cons_right CR_def LF_def)
  have "send_StateFunc (''GET /'' @ crlf @ crlf) = send_StateFunc ''GET /'' @ escaped_crlf @ send_StateFunc crlf"
    using send_StateFunc_replaces_crlf [of "''GET /''" "crlf" "[]"] by simp
  moreover have "send_StateFunc crlf = escaped_crlf"
    using send_StateFunc_replaces_crlf [of "[]" "[]" "[]"] n(2) by simp
  moreover have "send_StateFunc ''GET /'' = ''GET /''"
    using send_StateFunc_replaces_crlf [of "[]" "[]" "''GET /''"] n(1) by blast
  moreover have "send_StateFunc ([CR] @ crlf @ [LF]) = [CR] @ escaped_crlf @ [LF]"
    using send_StateFunc_replaces_crlf [of "[CR]" "[LF]" "[CR]"]
          send_StateFunc_replaces_crlf [of "[CR]" "[LF]" "[LF]"] n(3,4) by simp
  ultimately show ?thesis by (simp add: crlf_def)
qed

subsection \<open>The client calls and the operations, unfolded\<close>

lemma client_CreateMonitor_eq:
  "client_CreateMonitor client n p df i t s r rd w =
     (fst (CreateMonitor client n p df i t s r rd (remote w)),
      w\<lparr>remote := snd (CreateMonitor client n p df i t s r rd (remote w)),
        calls := calls w @ [(CreateMonitor_call n p df i t s r rd,
                             fst (CreateMonitor client n p df i t s r rd (remote w)))]\<rparr>)"
  by (simp add: client_CreateMonitor_def split: prod.splits)

lemma client_Monitors_eq:
  "client_Monitors client w =
     (fst (Monitors client (remote w)),
      w\<lparr>remote := snd (Monitors client (remote w)),
        calls := calls w @ [(Monitors_call, snd (fst (Monitors client (remote w))))]\<rparr>)"
  by (simp add: client_Monitors_def split: prod.splits)

lemma client_ModifyMonitor_eq:
  "client_ModifyMonitor client n p m w =
     (fst (ModifyMonitor client n p m (remote w)),
      w\<lparr>remote := snd (ModifyMonitor client n p m (remote w)),
        calls := calls w @ [(ModifyMonitor_call n p m, fst (ModifyMonitor client n p m (remote w)))]\<rparr>)"
  by (simp add: client_ModifyMonitor_def split: prod.splits)

lemma client_DeleteMonitor_eq:
  "client_DeleteMonitor client n p w =
     (fst (DeleteMonitor client n p (remote w)),
      w\<lparr>remote := snd (DeleteMonitor client n p (remote w)),
        calls := calls w @ [(DeleteMonitor_call n p, fst (DeleteMonitor client n p (remote w)))]\<rparr>)"
  by (simp add: client_DeleteMonitor_def split: prod.splits)

lemmas client_eqs = client_CreateMonitor_eq client_Monitors_eq client_ModifyMonitor_eq
  client_DeleteMonitor_eq

lemma log_Printf_simps [simp]:
  "remote (log_Printf msg w) = remote w" "calls (log_Printf msg w) = calls w"
  by (simp_all add: log_Printf_def)

lemma Read_error:
  "snd (fst (Monitors client (remote w))) = Some e \<Longrightarrow>
     fst (resourceBigipLtmMonitorRead client d w) = Some (''Unable to retrieve Monitors: '' @ e)
     \<and> fst (snd (resourceBigipLtmMonitorRead client d w)) = d"
  by (simp add: resourceBigipLtmMonitorRead_def client_Monitors_eq Let_def case_prod_beta)

lemma Read_calls:
  "calls (snd (snd (resourceBigipLtmMonitorRead client d w))) =
     calls w @ [(Monitors_call, snd (fst (Monitors client (remote w))))]"
  by (simp add: resourceBigipLtmMonitorRead_def client_Monitors_eq Let_def case_prod_beta
           split: option.splits)

lemma Exists_error:
  "snd (fst (Monitors client (remote w))) = Some e \<Longrightarrow>
     fst (resourceBigipLtmMonitorExists client d w) = (False, Some (''Unable to retrieve Monitors: '' @ e))"
  by (simp add: resourceBigipLtmMonitorExists_def client_Monitors_eq Let_def case_prod_beta)

lemma Exists_calls:
  "calls (snd (resourceBigipLtmMonitorExists client d w)) =
     calls w @ [(Monitors_call, snd (fst (Monitors client (remote w))))]"
  by (simp add: resourceBigipLtmMonitorExists_def client_Monitors_eq Let_def case_prod_beta
           split: option.splits)

lemma after_Modify_simps:
  "remote (after_Modify client d w) =
     snd (ModifyMonitor client (resource_id d) (monitorParent (attr_parent d)) (Update_request d) (remote w))"
  "calls (after_Modify client d w) =
     calls w @ [(ModifyMonitor_call (resource_id d) (monitorParent (attr_parent d)) (Update_request d),
                 fst (ModifyMonitor client (resource_id d) (monitorParent (attr_parent d)) (Update_request d) (remote w)))]"
  by (simp_all add: after_Modify_def client_ModifyMonitor_eq)

lemma after_Modify_log:
  "log_lines (after_Modify client d w) =
     log_lines w @ [''[DEBUG] Updating Monitor '' @ resource_id d @ ''::'' @ monitorParent (attr_parent d)]"
  by (simp add: after_Modify_def client_ModifyMonitor_eq log_Printf_def)

lemma Update_error:
  "fst (ModifyMonitor client (resource_id d) (monitorParent (attr_parent d)) (Update_request d) (remote w)) = Some e \<Longrightarrow>
     resourceBigipLtmMonitorUpdate client d w =
       (Some (''Error updating Monitor '' @ resource_id d @ ''::'' @ monitorParent (attr_parent d) @ '': '' @ e),
        d, after_Modify client d w)"
  by (simp add: resourceBigipLtmMonitorUpdate_def after_Modify_def client_ModifyMonitor_eq Let_def)

lemma Update_ok:
  "fst (ModifyMonitor client (resource_id d) (monitorParent (attr_parent d)) (Update_request d) (remote w)) = None \<Longrightarrow>
     resourceBigipLtmMonitorUpdate client d w =
       resourceBigipLtmMonitorRead client d (after_Modify client d w)"
  by (simp add: resourceBigipLtmMonitorUpdate_def after_Modify_def client_ModifyMonitor_eq Let_def)

lemma after_Create_simps:
  "remote (after_Create client d w) =
     snd (CreateMonitor client (attr_name d) (monitorParent (attr_parent d))
            (attr_defaults_from d) (attr_interval d) (attr_timeout d) (attr_send d)
            (attr_receive d) (attr_receive_disable d) (remote w))"
  "calls (after_Create client d w) =
     calls w @ [(CreateMonitor_call (attr_name d) (monitorParent (attr_parent d))
            (attr_defaults_from d) (attr_interval d) (attr_timeout d) (attr_send d)
            (attr_receive d) (attr_receive_disable d),
                 fst (CreateMonitor client (attr_name d) (monitorParent (attr_parent d))
            (attr_defaults_from d) (attr_interval d) (attr_timeout d) (attr_send d)
            (attr_receive d) (attr_receive_disable d) (remote w)))]"
  by (simp_all add: after_Create_def client_CreateMonitor_eq)

lemma after_Create_log:
  "log_lines (after_Create client d w) =
     log_lines w @ [''[DEBUG] Creating monitor '' @ attr_name d @ ''::'' @ monitorParent (attr_parent d)]"
  by (simp add: after_Create_def client_CreateMonitor_eq log_Printf_def)

lemma Create_error:
  "fst (CreateMonitor client (attr_name d) (monitorParent (attr_parent d))
            (attr_defaults_from d) (attr_interval d) (attr_timeout d) (attr_send d)
            (attr_receive d) (attr_receive_disable d) (remote w)) = Some e \<Longrightarrow>
     resourceBigipLtmMonitorCreate client d w =
       (Some (''Error creating Monitor '' @ attr_name d @ '': '' @ e), d, after_Create client d w)"
  by (simp add: resourceBigipLtmMonitorCreate_def after_Create_def client_CreateMonitor_eq Let_def)

lemma Create_ok:
  "fst (CreateMonitor client (attr_name d) (monitorParent (attr_parent d))
            (attr_defaults_from d) (attr_interval d) (attr_timeout d) (attr_send d)
            (attr_receive d) (attr_receive_disable d) (remote w)) = None \<Longrightarrow>
     resourceBigipLtmMonitorCreate client d w =
       resourceBigipLtmMonitorUpdate client (SetId (attr_name d) d) (after_Create client d w)"
  by (simp add: resourceBigipLtmMonitorCreate_def after_Create_def client_CreateMonitor_eq Let_def)

lemma Delete_error:
  "fst (DeleteMonitor client (resource_id d) (monitorParent (attr_parent d)) (remote w)) = Some e \<Longrightarrow>
     fst (resourceBigipLtmMonitorDelete client d w) =
        Some (''Error deleting Monitor '' @ resource_id d @ ''::'' @ monitorParent (attr_parent d) @ '': '' @ e)
     \<and> fst (snd (resourceBigipLtmMonitorDelete client d w)) = d"
  by (simp add: resourceBigipLtmMonitorDelete_def client_DeleteMonitor_eq Let_def)

lemma Delete_ok:
  "fst (DeleteMonitor client (resource_id d) (monitorParent (attr_parent d)) (remote w)) = None \<Longrightarrow>
     fst (resourceBigipLtmMonitorDelete client d w) = None
     \<and> fst (snd (resourceBigipLtmMonitorDelete client d w)) = SetId [] d"
  by (simp add: resourceBigipLtmMonitorDelete_def client_DeleteMonitor_eq Let_def)

lemma Delete_calls:
  "calls (snd (snd (resourceBigipLtmMonitorDelete client d w))) =
     calls w @ [(DeleteMonitor_call (resource_id d) (monitorParent (attr_parent d)),
                 fst (DeleteMonitor client (resource_id d) (monitorParent (attr_parent d)) (remote w)))]"
  by (simp add: resourceBigipLtmMonitorDelete_def client_DeleteMonitor_eq Let_def split: option.splits)

subsection \<open>Errors of the client\<close>

lemma mentions_name_and_error:
  "sublist n (a @ n @ b @ e) \<and> sublist e (a @ n @ b @ e)"
proof -
  have "sublist e ((a @ n @ b) @ e)" by (rule sublist_append_leftI)
  then show ?thesis by simp
qed

lemma mentions_name_parent_and_error:
  "sublist n (a @ n @ b @ p @ c @ e) \<and> sublist e (a @ n @ b @ p @ c @ e)"
proof -
  have "sublist e ((a @ n @ b @ p @ c) @ e)" by (rule sublist_append_leftI)
  then show ?thesis by simp
qed

text \<open>
  C2. When the client call of \<open>Create\<close>, \<open>Update\<close> or \<open>Delete\<close> (\<open>CreateMonitor\<close>,
  \<open>ModifyMonitor\<close>, \<open>DeleteMonitor\<close>) returns an error, the operation returns an error
  whose message contains the monitor name and the text of the client error. The name is
  the local \<open>name\<close> of the operation: the configured name in \<open>Create\<close>, the resource Id
  in \<open>Update\<close> and \<open>Delete\<close>. When the listing fails, \<open>Read\<close> and \<open>Exists\<close> return an
  error that wraps the client error.
\<close>

theorem client_errors_are_wrapped:
  "(fst (CreateMonitor client (attr_name d) (monitorParent (attr_parent d)) (attr_defaults_from d)
          (attr_interval d) (attr_timeout d) (attr_send d) (attr_receive d) (attr_receive_disable d) (remote w)) = Some e \<longrightarrow>
      (\<exists>msg. fst (resourceBigipLtmMonitorCreate client d w) = Some msg
         \<and> msg = ''Error creating Monitor '' @ attr_name d @ '': '' @ e
         \<and> sublist (attr_name d) msg \<and> sublist e msg))
   \<and> (fst (ModifyMonitor client (resource_id d) (monitorParent (attr_parent d)) (Update_request d) (remote w)) = Some e \<longrightarrow>
      (\<exists>msg. fst (resourceBigipLtmMonitorUpdate client d w) = Some msg
         \<and> msg = ''Error updating Monitor '' @ resource_id d @ ''::''
                  @ monitorParent (attr_parent d) @ '': '' @ e
         \<and> sublist (resource_id d) msg \<and> sublist e msg))
   \<and> (fst (DeleteMonitor client (resource_id d) (monitorParent (attr_parent d)) (remote w)) = Some e \<longrightarrow>
      (\<exists>msg. fst (resourceBigipLtmMonitorDelete client d w) = Some msg
         \<and> msg = ''Error deleting Monitor '' @ resource_id d @ ''::''
                  @ monitorParent (attr_parent d) @ '': '' @ e
         \<and> sublist (resource_id d) msg \<and> sublist e msg))
   \<and> (snd (fst (Monitors client (remote w))) = Some e \<longrightarrow>
      (\<exists>msg. fst (resourceBigipLtmMonitorRead client d w) = Some msg
         \<and> fst (resourceBigipLtmMonitorExists client d w) = (False, Some msg)
         \<and> msg = ''Unable to retrieve Monitors: '' @ e
         \<and> sublist e msg))"
proof (intro conjI impI)
  assume "fst (CreateMonitor client (attr_name d) (monitorParent (attr_parent d)) (attr_defaults_from d)
          (attr_interval d) (attr_timeout d) (attr_send d) (attr_receive d) (attr_receive_disable d) (remote w)) = Some e"
  then have "fst (resourceBigipLtmMonitorCreate client d w) = Some (''Error creating Monitor '' @ attr_name d @ '': '' @ e)"
    by (simp add: Create_error)
  then show "\<exists>msg. fst (resourceBigipLtmMonitorCreate client d w) = Some msg
         \<and> msg = ''Error creating Monitor '' @ attr_name d @ '': '' @ e
         \<and> sublist (attr_name d) msg \<and> sublist e msg"
    using mentions_name_and_error [of "attr_name d" "''Error creating Monitor ''" "'': ''" e]
    by blast
next
  assume "fst (ModifyMonitor client (resource_id d) (monitorParent (attr_parent d)) (Update_request d) (remote w)) = Some e"
  then have "fst (resourceBigipLtmMonitorUpdate client d w) = Some (''Error updating Monitor '' @ resource_id d @ ''::''
                  @ monitorParent (attr_parent d) @ '': '' @ e)"
    by (simp add: Update_error)
  then show "\<exists>msg. fst (resourceBigipLtmMonitorUpdate client d w) = Some msg
         \<and> msg = ''Error updating Monitor '' @ resource_id d @ ''::''
                  @ monitorParent (attr_parent d) @ '': '' @ e
         \<and> sublist (resource_id d) msg \<and> sublist e msg"
    using mentions_name_parent_and_error [of "resource_id d" "''Error updating Monitor ''" "''::''"
            "monitorParent (attr_parent d)" "'': ''" e]
    by blast
next
  assume "fst (DeleteMonitor client (resource_id d) (monitorParent (attr_parent d)) (remote w)) = Some e"
  then have "fst (resourceBigipLtmMonitorDelete client d w) = Some (''Error deleting Monitor '' @ resource_id d @ ''::''
                  @ monitorParent (attr_parent d) @ '': '' @ e)"
    by (simp add: Delete_error)
  then show "\<exists>msg. fst (resourceBigipLtmMonitorDelete client d w) = Some msg
         \<and> msg = ''Error deleting Monitor '' @ resource_id d @ ''::''
                  @ monitorParent (attr_parent d) @ '': '' @ e
         \<and> sublist (resource_id d) msg \<and> sublist e msg"
    using mentions_name_parent_and_error [of "resource_id d" "''Error deleting Monitor ''" "''::''"
            "monitorParent (attr_parent d)" "'': ''" e]
    by blast
next
  assume a: "snd (fst (Monitors client (remote w))) = Some e"
  have "sublist e (''Unable to retrieve Monitors: '' @ e)"
    by (rule sublist_append_leftI)
  then show "\<exists>msg. fst (resourceBigipLtmMonitorRead client d w) = Some msg
         \<and> fst (resourceBigipLtmMonitorExists client d w) = (False, Some msg)
         \<and> msg = ''Unable to retrieve Monitors: '' @ e
         \<and> sublist e msg"
    using Read_error [OF a, of d] Exists_error [OF a, of d] by blast
qed

theorem client_errors_are_wrapped_witness:
  "fst (resourceBigipLtmMonitorCreate unreachable_client web_config (start ()))
     = Some ''Error creating Monitor web: connection refused''
   \<and> fst (resourceBigipLtmMonitorUpdate unreachable_client web_state (start ()))
     = Some ''Error updating Monitor web::http: connection refused''
   \<and> fst (resourceBigipLtmMonitorDelete unreachable_client web_state (start ()))
     = Some ''Error deleting Monitor web::http: connection refused''
   \<and> fst (resourceBigipLtmMonitorRead unreachable_client web_state (start ()))
     = Some ''Unable to retrieve Monitors: connection refused''
   \<and> fst (resourceBigipLtmMonitorExists unreachable_client web_state (start ()))
     = (False, Some ''Unable to retrieve Monitors: connection refused'')"
proof -
  have p: "monitorParent ''/Common/http'' = ''http''"
    by (simp add: monitorParent_def TrimPrefix_def HasPrefix_def)
  have c: "resource_id web_config = [] \<and> attr_name web_config = ''web''
      \<and> attr_parent web_config = ''/Common/http''"
    by (simp add: web_config_def)
  have s: "resource_id web_state = ''web'' \<and> attr_parent web_state = ''/Common/http''"
    by (simp add: web_state_def web_config_def SetId_def)
  have f: "\<And>n p df i t s r rd m x.
      fst (CreateMonitor unreachable_client n p df i t s r rd x) = Some ''connection refused''
      \<and> fst (ModifyMonitor unreachable_client n p m x) = Some ''connection refused''
      \<and> fst (DeleteMonitor unreachable_client n p x) = Some ''connection refused''
      \<and> snd (fst (Monitors unreachable_client x)) = Some ''connection refused''"
    by (simp add: unreachable_client_def)
  show ?thesis
    using client_errors_are_wrapped [of unreachable_client web_config "start ()" "''connection refused''"]
          client_errors_are_wrapped [of unreachable_client web_state "start ()" "''connection refused''"]
    by (simp add: f p c s)
qed

subsection \<open>The calls an operation issues\<close>

lemma Read_trace:
  "\<exists>evs. calls (snd (snd (resourceBigipLtmMonitorRead client d w))) = calls w @ evs
      \<and> stops_at_error evs
      \<and> ((\<exists>ev\<in>set evs. snd ev \<noteq> None) \<longrightarrow> fst (resourceBigipLtmMonitorRead client d w) \<noteq> None)
      \<and> map (api_of \<circ> fst) evs = [API_Monitors]"
proof (intro exI conjI)
  show "calls (snd (snd (resourceBigipLtmMonitorRead client d w))) = calls w @ [(Monitors_call, snd (fst (Monitors client (remote w))))]"
    by (rule Read_calls)
  show "stops_at_error [(Monitors_call, snd (fst (Monitors client (remote w))))]"
    by (simp split: option.splits)
  show "(\<exists>ev\<in>set [(Monitors_call, snd (fst (Monitors client (remote w))))]. snd ev \<noteq> None)
          \<longrightarrow> fst (resourceBigipLtmMonitorRead client d w) \<noteq> None"
    using Read_error [of client w _ d] by auto
  show "map (api_of \<circ> fst) [(Monitors_call, snd (fst (Monitors client (remote w))))] = [API_Monitors]"
    by simp
qed

lemma Exists_trace:
  "\<exists>evs. calls (snd (resourceBigipLtmMonitorExists client d w)) = calls w @ evs
      \<and> stops_at_error evs
      \<and> ((\<exists>ev\<in>set evs. snd ev \<noteq> None) \<longrightarrow> snd (fst (resourceBigipLtmMonitorExists client d w)) \<noteq> None)
      \<and> map (api_of \<circ> fst) evs = [API_Monitors]"
proof (intro exI conjI)
  show "calls (snd (resourceBigipLtmMonitorExists client d w)) = calls w @ [(Monitors_call, snd (fst (Monitors client (remote w))))]"
    by (rule Exists_calls)
  show "stops_at_error [(Monitors_call, snd (fst (Monitors client (remote w))))]"
    by (simp split: option.splits)
  show "(\<exists>ev\<in>set [(Monitors_call, snd (fst (Monitors client (remote w))))]. snd ev \<noteq> None)
          \<longrightarrow> snd (fst (resourceBigipLtmMonitorExists client d w)) \<noteq> None"
    using Exists_error [of client w _ d] by auto
  show "map (api_of \<circ> fst) [(Monitors_call, snd (fst (Monitors client (remote w))))] = [API_Monitors]"
    by simp
qed

lemma Delete_trace:
  "\<exists>evs. calls (snd (snd (resourceBigipLtmMonitorDelete client d w))) = calls w @ evs
      \<and> stops_at_error evs
      \<and> ((\<exists>ev\<in>set evs. snd ev \<noteq> None) \<longrightarrow> fst (resourceBigipLtmMonitorDelete client d w) \<noteq> None)
      \<and> map (api_of \<circ> fst) evs = [API_DeleteMonitor]"
proof (intro exI conjI)
  show "calls (snd (snd (resourceBigipLtmMonitorDelete client d w))) = calls w @ [(DeleteMonitor_call (resource_id d) (monitorParent (attr_parent d)), fst (DeleteMonitor client (resource_id d) (monitorParent (attr_parent d)) (remote w)))]"
    by (rule Delete_calls)
  show "stops_at_error [(DeleteMonitor_call (resource_id d) (monitorParent (attr_parent d)), fst (DeleteMonitor client (resource_id d) (monitorParent (attr_parent d)) (remote w)))]"
    by (simp split: option.splits)
  show "(\<exists>ev\<in>set [(DeleteMonitor_call (resource_id d) (monitorParent (attr_parent d)), fst (DeleteMonitor client (resource_id d) (monitorParent (attr_parent d)) (remote w)))]. snd ev \<noteq> None)
          \<longrightarrow> fst (resourceBigipLtmMonitorDelete client d w) \<noteq> None"
    using Delete_error [of client d w] by auto
  show "map (api_of \<circ> fst) [(DeleteMonitor_call (resource_id d) (monitorParent (attr_parent d)), fst (DeleteMonitor client (resource_id d) (monitorParent (attr_parent d)) (remote w)))] = [API_DeleteMonitor]"
    by simp
qed

lemma trace_exI:
  "calls w' = calls w @ evs \<Longrightarrow> stops_at_error evs
   \<Longrightarrow> ((\<exists>ev\<in>set evs. snd ev \<noteq> None) \<longrightarrow> r \<noteq> None)
   \<Longrightarrow> map (api_of \<circ> fst) evs \<in> S
   \<Longrightarrow> \<exists>evs. calls w' = calls w @ evs \<and> stops_at_error evs
         \<and> ((\<exists>ev\<in>set evs. snd ev \<noteq> None) \<longrightarrow> r \<noteq> None)
         \<and> map (api_of \<circ> fst) evs \<in> S"
  by blast

lemma Update_trace:
  "\<exists>evs. calls (snd (snd (resourceBigipLtmMonitorUpdate client d w))) = calls w @ evs
      \<and> stops_at_error evs
      \<and> ((\<exists>ev\<in>set evs. snd ev \<noteq> None) \<longrightarrow> fst (resourceBigipLtmMonitorUpdate client d w) \<noteq> None)
      \<and> map (api_of \<circ> fst) evs \<in> {[API_ModifyMonitor], [API_ModifyMonitor, API_Monitors]}"
proof (cases "fst (ModifyMonitor client (resource_id d) (monitorParent (attr_parent d)) (Update_request d) (remote w))")
  case (Some e)
  let ?evs = "[(ModifyMonitor_call (resource_id d) (monitorParent (attr_parent d)) (Update_request d), Some e)]"
  have "calls (snd (snd (resourceBigipLtmMonitorUpdate client d w))) = calls w @ ?evs"
    using Some by (simp add: Update_error after_Modify_simps)
  moreover have "stops_at_error ?evs" by simp
  moreover have "(\<exists>ev\<in>set ?evs. snd ev \<noteq> None) \<longrightarrow> fst (resourceBigipLtmMonitorUpdate client d w) \<noteq> None"
    using Some by (simp add: Update_error)
  moreover have "map (api_of \<circ> fst) ?evs \<in> {[API_ModifyMonitor], [API_ModifyMonitor, API_Monitors]}"
    by simp
  ultimately show ?thesis by (rule trace_exI)
next
  case None
  let ?w = "after_Modify client d w"
  obtain evs where evs: "calls (snd (snd (resourceBigipLtmMonitorRead client d ?w))) = calls ?w @ evs"
      "stops_at_error evs"
      "(\<exists>ev\<in>set evs. snd ev \<noteq> None) \<longrightarrow> fst (resourceBigipLtmMonitorRead client d ?w) \<noteq> None"
      "map (api_of \<circ> fst) evs = [API_Monitors]"
    using Read_trace [of client d ?w] by (elim exE conjE) (rule that)
  let ?evs = "(ModifyMonitor_call (resource_id d) (monitorParent (attr_parent d)) (Update_request d), None) # evs"
  have "calls (snd (snd (resourceBigipLtmMonitorUpdate client d w))) = calls w @ ?evs"
    using None evs(1) by (simp add: Update_ok after_Modify_simps)
  moreover have "stops_at_error ?evs" using evs(2) by simp
  moreover have "(\<exists>ev\<in>set ?evs. snd ev \<noteq> None) \<longrightarrow> fst (resourceBigipLtmMonitorUpdate client d w) \<noteq> None"
    using None evs(3) by (simp add: Update_ok)
  moreover have "map (api_of \<circ> fst) ?evs \<in> {[API_ModifyMonitor], [API_ModifyMonitor, API_Monitors]}"
    using evs(4) by simp
  ultimately show ?thesis by (rule trace_exI)
qed

lemma Create_trace:
  "\<exists>evs. calls (snd (snd (resourceBigipLtmMonitorCreate client d w))) = calls w @ evs
      \<and> stops_at_error evs
      \<and> ((\<exists>ev\<in>set evs. snd ev \<noteq> None) \<longrightarrow> fst (resourceBigipLtmMonitorCreate client d w) \<noteq> None)
      \<and> map (api_of \<circ> fst) evs \<in> {[API_CreateMonitor], [API_CreateMonitor, API_ModifyMonitor],
            [API_CreateMonitor, API_ModifyMonitor, API_Monitors]}"
proof (cases "fst (CreateMonitor client (attr_name d) (monitorParent (attr_parent d)) (attr_defaults_from d)
          (attr_interval d) (attr_timeout d) (attr_send d) (attr_receive d) (attr_receive_disable d) (remote w))")
  case (Some e)
  let ?evs = "[(CreateMonitor_call (attr_name d) (monitorParent (attr_parent d)) (attr_defaults_from d)
          (attr_interval d) (attr_timeout d) (attr_send d) (attr_receive d) (attr_receive_disable d), Some e)]"
  have "calls (snd (snd (resourceBigipLtmMonitorCreate client d w))) = calls w @ ?evs"
    using Some by (simp add: Create_error after_Create_simps)
  moreover have "stops_at_error ?evs" by simp
  moreover have "(\<exists>ev\<in>set ?evs. snd ev \<noteq> None) \<longrightarrow> fst (resourceBigipLtmMonitorCreate client d w) \<noteq> None"
    using Some by (simp add: Create_error)
  moreover have "map (api_of \<circ> fst) ?evs \<in> {[API_CreateMonitor], [API_CreateMonitor, API_ModifyMonitor],
            [API_CreateMonitor, API_ModifyMonitor, API_Monitors]}"
    by simp
  ultimately show ?thesis by (rule trace_exI)
next
  case None
  let ?w = "after_Create client d w"
  let ?d = "SetId (attr_name d) d"
  obtain evs where evs: "calls (snd (snd (resourceBigipLtmMonitorUpdate client ?d ?w))) = calls ?w @ evs"
      "stops_at_error evs"
      "(\<exists>ev\<in>set evs. snd ev \<noteq> None) \<longrightarrow> fst (resourceBigipLtmMonitorUpdate client ?d ?w) \<noteq> None"
      "map (api_of \<circ> fst) evs \<in> {[API_ModifyMonitor], [API_ModifyMonitor, API_Monitors]}"
    using Update_trace [of client ?d ?w] by (elim exE conjE) (rule that)
  let ?evs = "(CreateMonitor_call (attr_name d) (monitorParent (attr_parent d)) (attr_defaults_from d)
          (attr_interval d) (attr_timeout d) (attr_send d) (attr_receive d) (attr_receive_disable d), None) # evs"
  have "calls (snd (snd (resourceBigipLtmMonitorCreate client d w))) = calls w @ ?evs"
    using None evs(1) by (simp add: Create_ok after_Create_simps)
  moreover have "stops_at_error ?evs" using evs(2) by simp
  moreover have "(\<exists>ev\<in>set ?evs. snd ev \<noteq> None) \<longrightarrow> fst (resourceBigipLtmMonitorCreate client d w) \<noteq> None"
    using None evs(3) by (simp add: Create_ok)
  moreover have "map (api_of \<circ> fst) ?evs \<in> {[API_CreateMonitor], [API_CreateMonitor, API_ModifyMonitor],
            [API_CreateMonitor, API_ModifyMonitor, API_Monitors]}"
    using evs(4) by auto
  ultimately show ?thesis by (rule trace_exI)
qed

lemma trace_drop_api:
  "\<exists>evs. A evs \<and> B evs \<and> C evs \<and> D evs \<Longrightarrow> \<exists>evs. A evs \<and> B evs \<and> C evs"
  by blast

lemma trace_only_api:
  "\<exists>evs. A evs \<and> B evs \<and> C evs \<and> D evs \<Longrightarrow> \<exists>evs. A evs \<and> D evs"
  by blast

text \<open>
  C3. An operation returns at the first error of the client: among the calls it issues
  (those of \<open>Update\<close> inside \<open>Create\<close> and of \<open>Read\<close> inside \<open>Update\<close> included), a call
  that returned an error is the last one, so it is not issued again and no call
  follows it, and the operation then returns an error. When \<open>CreateMonitor\<close> fails,
  \<open>Create\<close> has issued that one call only, neither \<open>ModifyMonitor\<close> nor \<open>Monitors\<close>, and
  the resource data, the Id with it, is as it was.
\<close>

theorem operations_stop_at_first_error:
  "(\<exists>evs. calls (snd (snd (resourceBigipLtmMonitorCreate client d w))) = calls w @ evs \<and> stops_at_error evs
       \<and> ((\<exists>ev\<in>set evs. snd ev \<noteq> None) \<longrightarrow> fst (resourceBigipLtmMonitorCreate client d w) \<noteq> None))
   \<and> (\<exists>evs. calls (snd (snd (resourceBigipLtmMonitorRead client d w))) = calls w @ evs \<and> stops_at_error evs
       \<and> ((\<exists>ev\<in>set evs. snd ev \<noteq> None) \<longrightarrow> fst (resourceBigipLtmMonitorRead client d w) \<noteq> None))
   \<and> (\<exists>evs. calls (snd (snd (resourceBigipLtmMonitorUpdate client d w))) = calls w @ evs \<and> stops_at_error evs
       \<and> ((\<exists>ev\<in>set evs. snd ev \<noteq> None) \<longrightarrow> fst (resourceBigipLtmMonitorUpdate client d w) \<noteq> None))
   \<and> (\<exists>evs. calls (snd (snd (resourceBigipLtmMonitorDelete client d w))) = calls w @ evs \<and> stops_at_error evs
       \<and> ((\<exists>ev\<in>set evs. snd ev \<noteq> None) \<longrightarrow> fst (resourceBigipLtmMonitorDelete client d w) \<noteq> None))
   \<and> (\<exists>evs. calls (snd (resourceBigipLtmMonitorExists client d w)) = calls w @ evs \<and> stops_at_error evs
       \<and> ((\<exists>ev\<in>set evs. snd ev \<noteq> None) \<longrightarrow> snd (fst (resourceBigipLtmMonitorExists client d w)) \<noteq> None))
   \<and> (fst (CreateMonitor client (attr_name d) (monitorParent (attr_parent d)) (attr_defaults_from d)
          (attr_interval d) (attr_timeout d) (attr_send d) (attr_receive d) (attr_receive_disable d) (remote w)) \<noteq> None \<longrightarrow>
        calls (snd (snd (resourceBigipLtmMonitorCreate client d w))) = calls w @ [(CreateMonitor_call (attr_name d) (monitorParent (attr_parent d)) (attr_defaults_from d)
          (attr_interval d) (attr_timeout d) (attr_send d) (attr_receive d) (attr_receive_disable d), fst (CreateMonitor client (attr_name d) (monitorParent (attr_parent d)) (attr_defaults_from d)
          (attr_interval d) (attr_timeout d) (attr_send d) (attr_receive d) (attr_receive_disable d) (remote w)))]
        \<and> fst (snd (resourceBigipLtmMonitorCreate client d w)) = d)"
proof (intro conjI impI)
  assume "fst (CreateMonitor client (attr_name d) (monitorParent (attr_parent d)) (attr_defaults_from d)
          (attr_interval d) (attr_timeout d) (attr_send d) (attr_receive d) (attr_receive_disable d) (remote w)) \<noteq> None"
  then obtain e where e: "fst (CreateMonitor client (attr_name d) (monitorParent (attr_parent d)) (attr_defaults_from d)
          (attr_interval d) (attr_timeout d) (attr_send d) (attr_receive d) (attr_receive_disable d) (remote w)) = Some e" by blast
  show "calls (snd (snd (resourceBigipLtmMonitorCreate client d w))) = calls w @ [(CreateMonitor_call (attr_name d) (monitorParent (attr_parent d)) (attr_defaults_from d)
          (attr_interval d) (attr_timeout d) (attr_send d) (attr_receive d) (attr_receive_disable d), fst (CreateMonitor client (attr_name d) (monitorParent (attr_parent d)) (attr_defaults_from d)
          (attr_interval d) (attr_timeout d) (attr_send d) (attr_receive d) (attr_receive_disable d) (remote w)))]"
    using e by (simp add: Create_error after_Create_simps)
  show "fst (snd (resourceBigipLtmMonitorCreate client d w)) = d"
    using e by (simp add: Create_error)
qed (rule trace_drop_api, rule Create_trace Read_trace Update_trace Delete_trace Exists_trace)+

theorem operations_stop_at_first_error_witness:
  "calls (snd (snd (resourceBigipLtmMonitorCreate unreachable_client web_config (start ())))) =
     [(CreateMonitor_call ''web'' ''http'' ''/Common/http'' 5 16 ''GET /'' ''200 OK'' [],
       Some ''connection refused'')]
   \<and> fst (snd (resourceBigipLtmMonitorCreate unreachable_client web_config (start ()))) = web_config
   \<and> resource_id web_config = []
   \<and> calls (snd (snd (resourceBigipLtmMonitorUpdate memory_client web_state (start [])))) =
     [(ModifyMonitor_call ''web'' ''http'' (Update_request web_state), Some ''not found'')]
   \<and> fst (resourceBigipLtmMonitorUpdate memory_client web_state (start [])) \<noteq> None"
proof -
  have p: "monitorParent ''/Common/http'' = ''http''"
    by (simp add: monitorParent_def TrimPrefix_def HasPrefix_def)
  have f: "\<And>n p df i t s r rd x.
      fst (CreateMonitor unreachable_client n p df i t s r rd x) = Some ''connection refused''"
    by (simp add: unreachable_client_def)
  have c: "resource_id web_config = []" "attr_name web_config = ''web''"
      "attr_parent web_config = ''/Common/http''" "attr_defaults_from web_config = ''/Common/http''"
      "attr_interval web_config = 5" "attr_timeout web_config = 16" "attr_send web_config = ''GET /''"
      "attr_receive web_config = ''200 OK''" "attr_receive_disable web_config = []"
    by (simp_all add: web_config_def)
  have "fst (CreateMonitor unreachable_client (attr_name web_config)
          (monitorParent (attr_parent web_config)) (attr_defaults_from web_config)
          (attr_interval web_config) (attr_timeout web_config) (attr_send web_config)
          (attr_receive web_config) (attr_receive_disable web_config) (remote (start ()))) \<noteq> None"
    by (simp add: f)
  with operations_stop_at_first_error [of unreachable_client web_config "start ()"]
  have "calls (snd (snd (resourceBigipLtmMonitorCreate unreachable_client web_config (start ())))) =
      calls (start ()) @ [(CreateMonitor_call (attr_name web_config)
          (monitorParent (attr_parent web_config)) (attr_defaults_from web_config)
          (attr_interval web_config) (attr_timeout web_config) (attr_send web_config)
          (attr_receive web_config) (attr_receive_disable web_config),
        fst (CreateMonitor unreachable_client (attr_name web_config)
          (monitorParent (attr_parent web_config)) (attr_defaults_from web_config)
          (attr_interval web_config) (attr_timeout web_config) (attr_send web_config)
          (attr_receive web_config) (attr_receive_disable web_config) (remote (start ()))))]
     \<and> fst (snd (resourceBigipLtmMonitorCreate unreachable_client web_config (start ()))) = web_config"
    by (elim conjE) (erule (1) impE)
  then have create: "calls (snd (snd (resourceBigipLtmMonitorCreate unreachable_client web_config (start ())))) =
     [(CreateMonitor_call ''web'' ''http'' ''/Common/http'' 5 16 ''GET /'' ''200 OK'' [],
       Some ''connection refused'')]
   \<and> fst (snd (resourceBigipLtmMonitorCreate unreachable_client web_config (start ()))) = web_config
   \<and> resource_id web_config = []"
    by (simp add: f c p start_def)
  have s: "resource_id web_state = ''web''" "attr_parent web_state = ''/Common/http''"
    by (simp_all add: web_state_def web_config_def SetId_def)
  have m: "fst (ModifyMonitor memory_client (resource_id web_state)
             (monitorParent (attr_parent web_state)) (Update_request web_state)
             (remote (start []))) = Some ''not found''"
    by (simp add: memory_client_def start_def)
  have u: "calls (snd (snd (resourceBigipLtmMonitorUpdate memory_client web_state (start [])))) =
     [(ModifyMonitor_call ''web'' ''http'' (Update_request web_state), Some ''not found'')]"
    using m by (simp add: Update_error after_Modify_simps s p start_def)
  obtain evs where evs:
      "calls (snd (snd (resourceBigipLtmMonitorUpdate memory_client web_state (start [])))) =
         calls (start ([]::monitor list)) @ evs"
      "(\<exists>ev\<in>set evs. snd ev \<noteq> None) \<longrightarrow>
         fst (resourceBigipLtmMonitorUpdate memory_client web_state (start [])) \<noteq> None"
    using operations_stop_at_first_error [of memory_client web_state "start []",
            THEN conjunct2, THEN conjunct2, THEN conjunct1]
    by (elim exE conjE) (rule that)
  from evs(1) u have "evs = [(ModifyMonitor_call ''web'' ''http'' (Update_request web_state), Some ''not found'')]"
    by (simp add: start_def)
  with evs(2) have "fst (resourceBigipLtmMonitorUpdate memory_client web_state (start [])) \<noteq> None"
    by simp
  with create u show ?thesis by simp
qed

text \<open>
  C6. The client calls of the five operations are, in this order: \<open>CreateMonitor\<close>,
  then \<open>ModifyMonitor\<close>, then \<open>Monitors\<close> for \<open>Create\<close> (or a prefix of the three, when a
  call fails); \<open>Monitors\<close> for \<open>Read\<close> and for \<open>Exists\<close>; \<open>ModifyMonitor\<close>, then
  \<open>Monitors\<close> for \<open>Update\<close>; \<open>DeleteMonitor\<close> for \<open>Delete\<close>. No operation issues any
  other call.
\<close>

theorem only_monitor_api_calls:
  "(\<exists>evs. calls (snd (snd (resourceBigipLtmMonitorCreate client d w))) = calls w @ evs
       \<and> map (api_of \<circ> fst) evs \<in> {[API_CreateMonitor], [API_CreateMonitor, API_ModifyMonitor],
            [API_CreateMonitor, API_ModifyMonitor, API_Monitors]})
   \<and> (\<exists>evs. calls (snd (snd (resourceBigipLtmMonitorRead client d w))) = calls w @ evs
       \<and> map (api_of \<circ> fst) evs = [API_Monitors])
   \<and> (\<exists>evs. calls (snd (snd (resourceBigipLtmMonitorUpdate client d w))) = calls w @ evs
       \<and> map (api_of \<circ> fst) evs \<in> {[API_ModifyMonitor], [API_ModifyMonitor, API_Monitors]})
   \<and> (\<exists>evs. calls (snd (snd (resourceBigipLtmMonitorDelete client d w))) = calls w @ evs
       \<and> map (api_of \<circ> fst) evs = [API_DeleteMonitor])
   \<and> (\<exists>evs. calls (snd (resourceBigipLtmMonitorExists client d w)) = calls w @ evs
       \<and> map (api_of \<circ> fst) evs = [API_Monitors])"
  by (intro conjI)
     ((rule trace_only_api, rule Create_trace Read_trace Update_trace Delete_trace Exists_trace)+)

theorem only_monitor_api_calls_witness:
  "map (api_of \<circ> fst)
      (calls (snd (snd (resourceBigipLtmMonitorCreate memory_client web_config (start [])))))
     = [API_CreateMonitor, API_ModifyMonitor, API_Monitors]
   \<and> map (api_of \<circ> fst)
      (calls (snd (snd (resourceBigipLtmMonitorDelete unreachable_client web_state (start ())))))
     = [API_DeleteMonitor]"
proof -
  have "map (api_of \<circ> fst)
      (calls (snd (snd (resourceBigipLtmMonitorCreate memory_client web_config (start [])))))
     \<in> {[API_CreateMonitor], [API_CreateMonitor, API_ModifyMonitor],
            [API_CreateMonitor, API_ModifyMonitor, API_Monitors]}"
    using only_monitor_api_calls [of memory_client web_config "start []"]
    by (auto simp: start_def)
  moreover have "length (calls (snd (snd (resourceBigipLtmMonitorCreate memory_client web_config (start []))))) = 3"
    by (simp add: resourceBigipLtmMonitorCreate_def resourceBigipLtmMonitorUpdate_def
          resourceBigipLtmMonitorRead_def client_eqs memory_client_def web_config_def start_def
          SetId_def Let_def Update_request_def zero_Monitor_def log_Printf_def)
  ultimately have "map (api_of \<circ> fst)
      (calls (snd (snd (resourceBigipLtmMonitorCreate memory_client web_config (start [])))))
     = [API_CreateMonitor, API_ModifyMonitor, API_Monitors]"
    by (auto dest: arg_cong [where f = length])
  moreover have "map (api_of \<circ> fst)
      (calls (snd (snd (resourceBigipLtmMonitorDelete unreachable_client web_state (start ())))))
     = [API_DeleteMonitor]"
    using only_monitor_api_calls [of unreachable_client web_state "start ()"]
    by (auto simp: start_def)
  ultimately show ?thesis by simp
qed

subsection \<open>Create and Update\<close>

lemma no_Create_in_Update:
  "map (api_of \<circ> fst) evs \<in> {[API_ModifyMonitor], [API_ModifyMonitor, API_Monitors]}
     \<Longrightarrow> API_CreateMonitor \<notin> set (map (api_of \<circ> fst) evs)"
  by (metis api.distinct(1,3) empty_iff empty_set insert_iff set_ConsD)

lemma no_Modify_in_Read:
  "map (api_of \<circ> fst) evs = [API_Monitors]
     \<Longrightarrow> API_ModifyMonitor \<notin> set (map (api_of \<circ> fst) evs)"
  by simp

text \<open>
  C4. \<open>Create\<close> issues \<open>CreateMonitor\<close> once, first, with the configured name, the
  configured parent without its leading \<open>/Common/\<close>, and the configured
  \<open>defaults_from\<close>, \<open>interval\<close>, \<open>timeout\<close>, \<open>send\<close>, \<open>receive\<close> and \<open>receive_disable\<close> as
  they are. When the call succeeds, \<open>Create\<close> is \<open>Update\<close> on the resource data whose
  Id is the configured name, in the world the call has left.
\<close>

theorem Create_passes_config_then_updates:
  "(\<exists>rest. calls (snd (snd (resourceBigipLtmMonitorCreate client d w))) = calls w @ (CreateMonitor_call (attr_name d) (monitorParent (attr_parent d)) (attr_defaults_from d)
          (attr_interval d) (attr_timeout d) (attr_send d) (attr_receive d) (attr_receive_disable d), fst (CreateMonitor client (attr_name d) (monitorParent (attr_parent d)) (attr_defaults_from d)
          (attr_interval d) (attr_timeout d) (attr_send d) (attr_receive d) (attr_receive_disable d) (remote w))) # rest
        \<and> API_CreateMonitor \<notin> set (map (api_of \<circ> fst) rest))
   \<and> (fst (CreateMonitor client (attr_name d) (monitorParent (attr_parent d)) (attr_defaults_from d)
          (attr_interval d) (attr_timeout d) (attr_send d) (attr_receive d) (attr_receive_disable d) (remote w)) = None \<longrightarrow>
        (\<exists>w'. remote w' = snd (CreateMonitor client (attr_name d) (monitorParent (attr_parent d)) (attr_defaults_from d)
          (attr_interval d) (attr_timeout d) (attr_send d) (attr_receive d) (attr_receive_disable d) (remote w))
           \<and> calls w' = calls w @ [(CreateMonitor_call (attr_name d) (monitorParent (attr_parent d)) (attr_defaults_from d)
          (attr_interval d) (attr_timeout d) (attr_send d) (attr_receive d) (attr_receive_disable d), None)]
           \<and> log_lines w' = log_lines w @ [''[DEBUG] Creating monitor '' @ attr_name d @ ''::''
                                              @ monitorParent (attr_parent d)]
           \<and> resourceBigipLtmMonitorCreate client d w = resourceBigipLtmMonitorUpdate client (d\<lparr>resource_id := attr_name d\<rparr>) w'))"
proof (intro conjI impI)
  show "\<exists>rest. calls (snd (snd (resourceBigipLtmMonitorCreate client d w))) = calls w @ (CreateMonitor_call (attr_name d) (monitorParent (attr_parent d)) (attr_defaults_from d)
          (attr_interval d) (attr_timeout d) (attr_send d) (attr_receive d) (attr_receive_disable d), fst (CreateMonitor client (attr_name d) (monitorParent (attr_parent d)) (attr_defaults_from d)
          (attr_interval d) (attr_timeout d) (attr_send d) (attr_receive d) (attr_receive_disable d) (remote w))) # rest
        \<and> API_CreateMonitor \<notin> set (map (api_of \<circ> fst) rest)"
  proof (cases "fst (CreateMonitor client (attr_name d) (monitorParent (attr_parent d)) (attr_defaults_from d)
          (attr_interval d) (attr_timeout d) (attr_send d) (attr_receive d) (attr_receive_disable d) (remote w))")
    case (Some e)
    then have "calls (snd (snd (resourceBigipLtmMonitorCreate client d w))) = calls w @ (CreateMonitor_call (attr_name d) (monitorParent (attr_parent d)) (attr_defaults_from d)
          (attr_interval d) (attr_timeout d) (attr_send d) (attr_receive d) (attr_receive_disable d), fst (CreateMonitor client (attr_name d) (monitorParent (attr_parent d)) (attr_defaults_from d)
          (attr_interval d) (attr_timeout d) (attr_send d) (attr_receive d) (attr_receive_disable d) (remote w))) # []"
      by (simp add: Create_error after_Create_simps)
    moreover have "API_CreateMonitor \<notin> set (map (api_of \<circ> fst) [])" by simp
    ultimately show ?thesis by (intro exI conjI)
  next
    case None
    let ?w = "after_Create client d w"
    let ?d = "SetId (attr_name d) d"
    obtain evs where evs: "calls (snd (snd (resourceBigipLtmMonitorUpdate client ?d ?w))) = calls ?w @ evs"
      "map (api_of \<circ> fst) evs \<in> {[API_ModifyMonitor], [API_ModifyMonitor, API_Monitors]}"
      using Update_trace [of client ?d ?w] by (elim exE conjE) (rule that)
    have "calls (snd (snd (resourceBigipLtmMonitorCreate client d w))) = calls w @ (CreateMonitor_call (attr_name d) (monitorParent (attr_parent d)) (attr_defaults_from d)
          (attr_interval d) (attr_timeout d) (attr_send d) (attr_receive d) (attr_receive_disable d), fst (CreateMonitor client (attr_name d) (monitorParent (attr_parent d)) (attr_defaults_from d)
          (attr_interval d) (attr_timeout d) (attr_send d) (attr_receive d) (attr_receive_disable d) (remote w))) # evs"
      using None evs(1) by (simp add: Create_ok after_Create_simps)
    moreover have "API_CreateMonitor \<notin> set (map (api_of \<circ> fst) evs)"
      using evs(2) by (rule no_Create_in_Update)
    ultimately show ?thesis by (intro exI conjI)
  qed
next
  assume ok: "fst (CreateMonitor client (attr_name d) (monitorParent (attr_parent d)) (attr_defaults_from d)
          (attr_interval d) (attr_timeout d) (attr_send d) (attr_receive d) (attr_receive_disable d) (remote w)) = None"
  let ?w = "after_Create client d w"
  have "remote ?w = snd (CreateMonitor client (attr_name d) (monitorParent (attr_parent d)) (attr_defaults_from d)
          (attr_interval d) (attr_timeout d) (attr_send d) (attr_receive d) (attr_receive_disable d) (remote w))"
    by (simp add: after_Create_simps)
  moreover have "calls ?w = calls w @ [(CreateMonitor_call (attr_name d) (monitorParent (attr_parent d)) (attr_defaults_from d)
          (attr_interval d) (attr_timeout d) (attr_send d) (attr_receive d) (attr_receive_disable d), None)]"
    using ok by (simp add: after_Create_simps)
  moreover have "log_lines ?w = log_lines w @ [''[DEBUG] Creating monitor '' @ attr_name d @ ''::''
                                              @ monitorParent (attr_parent d)]"
    by (rule after_Create_log)
  moreover have "resourceBigipLtmMonitorCreate client d w = resourceBigipLtmMonitorUpdate client (d\<lparr>resource_id := attr_name d\<rparr>) ?w"
    using ok by (simp add: Create_ok SetId_def)
  ultimately show "\<exists>w'. remote w' = snd (CreateMonitor client (attr_name d) (monitorParent (attr_parent d)) (attr_defaults_from d)
          (attr_interval d) (attr_timeout d) (attr_send d) (attr_receive d) (attr_receive_disable d) (remote w))
           \<and> calls w' = calls w @ [(CreateMonitor_call (attr_name d) (monitorParent (attr_parent d)) (attr_defaults_from d)
          (attr_interval d) (attr_timeout d) (attr_send d) (attr_receive d) (attr_receive_disable d), None)]
           \<and> log_lines w' = log_lines w @ [''[DEBUG] Creating monitor '' @ attr_name d @ ''::''
                                              @ monitorParent (attr_parent d)]
           \<and> resourceBigipLtmMonitorCreate client d w = resourceBigipLtmMonitorUpdate client (d\<lparr>resource_id := attr_name d\<rparr>) w'"
    by (intro exI conjI)
qed

theorem Create_passes_config_then_updates_witness:
  "fst (CreateMonitor memory_client ''web'' ''http'' ''/Common/http'' 5 16 ''GET /'' ''200 OK'' [] []) = None
   \<and> (\<exists>rest. calls (snd (snd (resourceBigipLtmMonitorCreate memory_client web_config (start [])))) =
          (CreateMonitor_call ''web'' ''http'' ''/Common/http'' 5 16 ''GET /'' ''200 OK'' [], None) # rest
        \<and> API_CreateMonitor \<notin> set (map (api_of \<circ> fst) rest))
   \<and> (\<exists>w'. remote w' = [zero_Monitor\<lparr>FullPath := ''web'', ParentMonitor := ''http'',
                             DefaultsFrom := ''/Common/http'', Interval := 5, Timeout := 16,
                             SendString := ''GET /'', ReceiveString := ''200 OK''\<rparr>]
        \<and> calls w' = [(CreateMonitor_call ''web'' ''http'' ''/Common/http'' 5 16 ''GET /'' ''200 OK'' [], None)]
        \<and> log_lines w' = [''[DEBUG] Creating monitor web::http'']
        \<and> resourceBigipLtmMonitorCreate memory_client web_config (start []) =
            resourceBigipLtmMonitorUpdate memory_client (web_config\<lparr>resource_id := ''web''\<rparr>) w')"
proof -
  have p: "monitorParent ''/Common/http'' = ''http''"
    by (simp add: monitorParent_def TrimPrefix_def HasPrefix_def)
  have c: "attr_name web_config = ''web''"
      "attr_parent web_config = ''/Common/http''" "attr_defaults_from web_config = ''/Common/http''"
      "attr_interval web_config = 5" "attr_timeout web_config = 16" "attr_send web_config = ''GET /''"
      "attr_receive web_config = ''200 OK''" "attr_receive_disable web_config = []"
    by (simp_all add: web_config_def)
  have f: "CreateMonitor memory_client ''web'' ''http'' ''/Common/http'' 5 16 ''GET /'' ''200 OK'' [] [] =
      (None, [zero_Monitor\<lparr>FullPath := ''web'', ParentMonitor := ''http'',
                             DefaultsFrom := ''/Common/http'', Interval := 5, Timeout := 16,
                             SendString := ''GET /'', ReceiveString := ''200 OK''\<rparr>])"
    by (simp add: memory_client_def zero_Monitor_def)
  have s: "remote (start []) = []" "calls (start []) = []" "log_lines (start []) = []"
    by (simp_all add: start_def)
  show ?thesis
    using Create_passes_config_then_updates [of memory_client web_config "start []"]
    by (simp add: p c f s)
qed

text \<open>
  C5. The request record of \<open>Update\<close> holds the eleven configured fields \<open>interval\<close>,
  \<open>timeout\<close>, \<open>send\<close>, \<open>receive\<close>, \<open>receive_disable\<close>, \<open>reverse\<close>, \<open>transparent\<close>,
  \<open>ip_dscp\<close>, \<open>time_until_up\<close>, \<open>manual_resume\<close> and \<open>destination\<close> as they are, and the
  zero value in its other fields. \<open>Update\<close> issues \<open>ModifyMonitor\<close> once, first, with
  the resource Id, the configured parent without its leading \<open>/Common/\<close>, and that
  record. When the call succeeds, \<open>Update\<close> is \<open>Read\<close> in the world the call has left.
\<close>

theorem Update_passes_request_then_reads:
  "Update_request d = \<lparr>FullPath = [], ParentMonitor = [], DefaultsFrom = [],
        Interval = attr_interval d, Timeout = attr_timeout d, SendString = attr_send d,
        ReceiveString = attr_receive d, ReceiveDisable = attr_receive_disable d,
        Reverse = attr_reverse d, Transparent = attr_transparent d, IPDSCP = attr_ip_dscp d,
        TimeUntilUp = attr_time_until_up d, ManualResume = attr_manual_resume d,
        Destination = attr_destination d\<rparr>
   \<and> (\<exists>rest. calls (snd (snd (resourceBigipLtmMonitorUpdate client d w))) = calls w @ (ModifyMonitor_call (resource_id d) (monitorParent (attr_parent d)) (Update_request d), fst (ModifyMonitor client (resource_id d) (monitorParent (attr_parent d)) (Update_request d) (remote w))) # rest
        \<and> API_ModifyMonitor \<notin> set (map (api_of \<circ> fst) rest))
   \<and> (fst (ModifyMonitor client (resource_id d) (monitorParent (attr_parent d)) (Update_request d) (remote w)) = None \<longrightarrow>
        (\<exists>w'. remote w' = snd (ModifyMonitor client (resource_id d) (monitorParent (attr_parent d)) (Update_request d) (remote w))
           \<and> calls w' = calls w @ [(ModifyMonitor_call (resource_id d) (monitorParent (attr_parent d)) (Update_request d), None)]
           \<and> log_lines w' = log_lines w @ [''[DEBUG] Updating Monitor '' @ resource_id d @ ''::''
                                              @ monitorParent (attr_parent d)]
           \<and> resourceBigipLtmMonitorUpdate client d w = resourceBigipLtmMonitorRead client d w'))"
proof (intro conjI impI)
  show "Update_request d = \<lparr>FullPath = [], ParentMonitor = [], DefaultsFrom = [],
        Interval = attr_interval d, Timeout = attr_timeout d, SendString = attr_send d,
        ReceiveString = attr_receive d, ReceiveDisable = attr_receive_disable d,
        Reverse = attr_reverse d, Transparent = attr_transparent d, IPDSCP = attr_ip_dscp d,
        TimeUntilUp = attr_time_until_up d, ManualResume = attr_manual_resume d,
        Destination = attr_destination d\<rparr>"
    by (simp add: Update_request_def zero_Monitor_def)
next
  show "\<exists>rest. calls (snd (snd (resourceBigipLtmMonitorUpdate client d w))) = calls w @ (ModifyMonitor_call (resource_id d) (monitorParent (attr_parent d)) (Update_request d), fst (ModifyMonitor client (resource_id d) (monitorParent (attr_parent d)) (Update_request d) (remote w))) # rest
        \<and> API_ModifyMonitor \<notin> set (map (api_of \<circ> fst) rest)"
  proof (cases "fst (ModifyMonitor client (resource_id d) (monitorParent (attr_parent d)) (Update_request d) (remote w))")
    case (Some e)
    then have "calls (snd (snd (resourceBigipLtmMonitorUpdate client d w))) = calls w @ (ModifyMonitor_call (resource_id d) (monitorParent (attr_parent d)) (Update_request d), fst (ModifyMonitor client (resource_id d) (monitorParent (attr_parent d)) (Update_request d) (remote w))) # []"
      by (simp add: Update_error after_Modify_simps)
    moreover have "API_ModifyMonitor \<notin> set (map (api_of \<circ> fst) [])" by simp
    ultimately show ?thesis by (intro exI conjI)
  next
    case None
    let ?w = "after_Modify client d w"
    obtain evs where evs: "calls (snd (snd (resourceBigipLtmMonitorRead client d ?w))) = calls ?w @ evs"
      "map (api_of \<circ> fst) evs = [API_Monitors]"
      using Read_trace [of client d ?w] by (elim exE conjE) (rule that)
    have "calls (snd (snd (resourceBigipLtmMonitorUpdate client d w))) = calls w @ (ModifyMonitor_call (resource_id d) (monitorParent (attr_parent d)) (Update_request d), fst (ModifyMonitor client (resource_id d) (monitorParent (attr_parent d)) (Update_request d) (remote w))) # evs"
      using None evs(1) by (simp add: Update_ok after_Modify_simps)
    moreover have "API_ModifyMonitor \<notin> set (map (api_of \<circ> fst) evs)"
      using evs(2) by (rule no_Modify_in_Read)
    ultimately show ?thesis by (intro exI conjI)
  qed
next
  assume ok: "fst (ModifyMonitor client (resource_id d) (monitorParent (attr_parent d)) (Update_request d) (remote w)) = None"
  let ?w = "after_Modify client d w"
  have "remote ?w = snd (ModifyMonitor client (resource_id d) (monitorParent (attr_parent d)) (Update_request d) (remote w))"
    by (simp add: after_Modify_simps)
  moreover have "calls ?w = calls w @ [(ModifyMonitor_call (resource_id d) (monitorParent (attr_parent d)) (Update_request d), None)]"
    using ok by (simp add: after_Modify_simps)
  moreover have "log_lines ?w = log_lines w @ [''[DEBUG] Updating Monitor '' @ resource_id d @ ''::''
                                              @ monitorParent (attr_parent d)]"
    by (rule after_Modify_log)
  moreover have "resourceBigipLtmMonitorUpdate client d w = resourceBigipLtmMonitorRead client d ?w"
    using ok by (simp add: Update_ok)
  ultimately show "\<exists>w'. remote w' = snd (ModifyMonitor client (resource_id d) (monitorParent (attr_parent d)) (Update_request d) (remote w))
           \<and> calls w' = calls w @ [(ModifyMonitor_call (resource_id d) (monitorParent (attr_parent d)) (Update_request d), None)]
           \<and> log_lines w' = log_lines w @ [''[DEBUG] Updating Monitor '' @ resource_id d @ ''::''
                                              @ monitorParent (attr_parent d)]
           \<and> resourceBigipLtmMonitorUpdate client d w = resourceBigipLtmMonitorRead client d w'"
    by (intro exI conjI)
qed

theorem Update_passes_request_then_reads_witness:
  "Update_request web_state = \<lparr>FullPath = [], ParentMonitor = [], DefaultsFrom = [],
        Interval = 5, Timeout = 16, SendString = ''GET /'',
        ReceiveString = ''200 OK'', ReceiveDisable = [],
        Reverse = ''disabled'', Transparent = ''disabled'', IPDSCP = 0,
        TimeUntilUp = 0, ManualResume = ''disabled'',
        Destination = ''*:*''\<rparr>
   \<and> fst (ModifyMonitor blank_client ''web'' ''http'' (Update_request web_state) ()) = None
   \<and> (\<exists>rest. calls (snd (snd (resourceBigipLtmMonitorUpdate blank_client web_state (start ())))) =
          (ModifyMonitor_call ''web'' ''http'' (Update_request web_state), None) # rest
        \<and> API_ModifyMonitor \<notin> set (map (api_of \<circ> fst) rest))
   \<and> (\<exists>w'. remote w' = ()
        \<and> calls w' = [(ModifyMonitor_call ''web'' ''http'' (Update_request web_state), None)]
        \<and> log_lines w' = [''[DEBUG] Updating Monitor web::http'']
        \<and> resourceBigipLtmMonitorUpdate blank_client web_state (start ()) =
            resourceBigipLtmMonitorRead blank_client web_state w')"
proof -
  have p: "monitorParent ''/Common/http'' = ''http''"
    by (simp add: monitorParent_def TrimPrefix_def HasPrefix_def)
  have c: "resource_id web_state = ''web''" "attr_parent web_state = ''/Common/http''"
      "attr_interval web_state = 5" "attr_timeout web_state = 16" "attr_send web_state = ''GET /''"
      "attr_receive web_state = ''200 OK''" "attr_receive_disable web_state = []"
      "attr_reverse web_state = ''disabled''" "attr_transparent web_state = ''disabled''"
      "attr_ip_dscp web_state = 0" "attr_time_until_up web_state = 0"
      "attr_manual_resume web_state = ''disabled''" "attr_destination web_state = ''*:*''"
    by (simp_all add: web_state_def web_config_def SetId_def)
  have f: "\<And>n p m x. ModifyMonitor blank_client n p m x = (None, ())"
    by (simp add: blank_client_def)
  have s: "remote (start ()) = ()" "calls (start ()) = []" "log_lines (start ()) = []"
    by (simp_all add: start_def)
  show ?thesis
    using Update_passes_request_then_reads [of web_state blank_client "start ()"]
    by (elim conjE) (simp add: p c f s)
qed

subsection \<open>Read\<close>

lemma Read_range_None:
  "Read_range ms name d = None \<longleftrightarrow> (\<forall>m\<in>set ms. FullPath m \<noteq> name)"
  by (induction ms) simp_all

lemma Read_range_no_match:
  "\<forall>m\<in>set ms. FullPath m \<noteq> name \<Longrightarrow> Read_range ms name d = None"
  by (simp add: Read_range_None)

lemma Read_range_Some:
  "Read_range ms name d = Some d' \<Longrightarrow>
     \<exists>m. m \<in> set ms \<and> FullPath m = name \<and> d' = d\<lparr>attr_name := FullPath m, attr_parent := ParentMonitor m,
                 attr_defaults_from := DefaultsFrom m, attr_interval := Interval m,
                 attr_timeout := Timeout m, attr_send := SendString m,
                 attr_receive := ReceiveString m, attr_receive_disable := ReceiveDisable m,
                 attr_reverse := Reverse m, attr_transparent := Transparent m,
                 attr_ip_dscp := IPDSCP m, attr_time_until_up := TimeUntilUp m,
                 attr_manual_resume := ManualResume m, attr_destination := Destination m\<rparr>"
proof (induction ms)
  case Nil
  then show ?case by simp
next
  case (Cons a ms)
  show ?case
  proof (cases "FullPath a = name")
    case True
    with Cons.prems have "a \<in> set (a # ms) \<and> FullPath a = name \<and> d' = d\<lparr>attr_name := FullPath a, attr_parent := ParentMonitor a,
                 attr_defaults_from := DefaultsFrom a, attr_interval := Interval a,
                 attr_timeout := Timeout a, attr_send := SendString a,
                 attr_receive := ReceiveString a, attr_receive_disable := ReceiveDisable a,
                 attr_reverse := Reverse a, attr_transparent := Transparent a,
                 attr_ip_dscp := IPDSCP a, attr_time_until_up := TimeUntilUp a,
                 attr_manual_resume := ManualResume a, attr_destination := Destination a\<rparr>"
      by simp
    then show ?thesis by (rule exI)
  next
    case False
    with Cons obtain m where "m \<in> set ms \<and> FullPath m = name \<and> d' = d\<lparr>attr_name := FullPath m, attr_parent := ParentMonitor m,
                 attr_defaults_from := DefaultsFrom m, attr_interval := Interval m,
                 attr_timeout := Timeout m, attr_send := SendString m,
                 attr_receive := ReceiveString m, attr_receive_disable := ReceiveDisable m,
                 attr_reverse := Reverse m, attr_transparent := Transparent m,
                 attr_ip_dscp := IPDSCP m, attr_time_until_up := TimeUntilUp m,
                 attr_manual_resume := ManualResume m, attr_destination := Destination m\<rparr>"
      by auto
    then have "m \<in> set (a # ms) \<and> FullPath m = name \<and> d' = d\<lparr>attr_name := FullPath m, attr_parent := ParentMonitor m,
                 attr_defaults_from := DefaultsFrom m, attr_interval := Interval m,
                 attr_timeout := Timeout m, attr_send := SendString m,
                 attr_receive := ReceiveString m, attr_receive_disable := ReceiveDisable m,
                 attr_reverse := Reverse m, attr_transparent := Transparent m,
                 attr_ip_dscp := IPDSCP m, attr_time_until_up := TimeUntilUp m,
                 attr_manual_resume := ManualResume m, attr_destination := Destination m\<rparr>"
      by simp
    then show ?thesis by (rule exI)
  qed
qed

lemma Read_result:
  "snd (fst (Monitors client (remote w))) = None \<Longrightarrow>
     fst (resourceBigipLtmMonitorRead client d w) = None
     \<and> fst (snd (resourceBigipLtmMonitorRead client d w)) =
        (case fst (fst (Monitors client (remote w))) of
           None \<Rightarrow> SetId [] d
         | Some ms \<Rightarrow> (case Read_range ms (resource_id d) d of
                        None \<Rightarrow> SetId [] d | Some d' \<Rightarrow> d'))"
  by (simp add: resourceBigipLtmMonitorRead_def client_Monitors_eq Let_def case_prod_beta
           split: option.splits)

text \<open>
  C8, as stated, fails when the listing returns an error: the client then hands over a
  nil list with the error, and \<open>Read\<close> returns the wrapped error and leaves the Id of
  the resource as it was.
\<close>

theorem Read_nil_list_with_error_counterexample:
  "fst (fst (Monitors unreachable_client (remote (start ())))) = None
   \<and> fst (resourceBigipLtmMonitorRead unreachable_client web_state (start ()))
       = Some ''Unable to retrieve Monitors: connection refused''
   \<and> resource_id (fst (snd (resourceBigipLtmMonitorRead unreachable_client web_state (start ()))))
       = ''web''"
proof -
  have a: "snd (fst (Monitors unreachable_client (remote (start ())))) = Some ''connection refused''"
    by (simp add: unreachable_client_def)
  have "fst (fst (Monitors unreachable_client (remote (start ())))) = None"
    by (simp add: unreachable_client_def)
  moreover have "resource_id web_state = ''web''"
    by (simp add: web_state_def SetId_def)
  ultimately show ?thesis
    using Read_error [OF a, of web_state] by simp
qed

text \<open>
  C8, amended. When the listing returns no error, and the list is nil or holds no
  monitor whose \<open>FullPath\<close> is the resource Id, \<open>Read\<close> returns no error and the
  resource data with the Id set to the empty string and every configuration field as
  it was. Whenever \<open>Read\<close> changes a configuration field, the listing returned no
  error and a list with a monitor whose \<open>FullPath\<close> is the resource Id, and the
  fourteen fields are those of that monitor.
\<close>

theorem Read_removes_missing_monitor:
  "(snd (fst (Monitors client (remote w))) = None
      \<and> (fst (fst (Monitors client (remote w))) = None
          \<or> (\<exists>ms. fst (fst (Monitors client (remote w))) = Some ms
                \<and> (\<forall>m\<in>set ms. FullPath m \<noteq> resource_id d)))
     \<longrightarrow> fst (resourceBigipLtmMonitorRead client d w) = None \<and> fst (snd (resourceBigipLtmMonitorRead client d w)) = SetId [] d)
   \<and> (fst (snd (resourceBigipLtmMonitorRead client d w)) \<noteq> d \<and> fst (snd (resourceBigipLtmMonitorRead client d w)) \<noteq> SetId [] d
     \<longrightarrow> (\<exists>ms m. Monitors client (remote w) = ((Some ms, None), snd (Monitors client (remote w)))
            \<and> m \<in> set ms \<and> FullPath m = resource_id d
            \<and> fst (snd (resourceBigipLtmMonitorRead client d w)) = d\<lparr>attr_name := FullPath m, attr_parent := ParentMonitor m,
                 attr_defaults_from := DefaultsFrom m, attr_interval := Interval m,
                 attr_timeout := Timeout m, attr_send := SendString m,
                 attr_receive := ReceiveString m, attr_receive_disable := ReceiveDisable m,
                 attr_reverse := Reverse m, attr_transparent := Transparent m,
                 attr_ip_dscp := IPDSCP m, attr_time_until_up := TimeUntilUp m,
                 attr_manual_resume := ManualResume m, attr_destination := Destination m\<rparr>))"
proof (intro conjI impI)
  assume a: "snd (fst (Monitors client (remote w))) = None
      \<and> (fst (fst (Monitors client (remote w))) = None
          \<or> (\<exists>ms. fst (fst (Monitors client (remote w))) = Some ms
                \<and> (\<forall>m\<in>set ms. FullPath m \<noteq> resource_id d)))"
  then show "fst (resourceBigipLtmMonitorRead client d w) = None"
    by (simp add: Read_result)
  from a show "fst (snd (resourceBigipLtmMonitorRead client d w)) = SetId [] d"
    by (auto simp: Read_result Read_range_no_match)
next
  assume b: "fst (snd (resourceBigipLtmMonitorRead client d w)) \<noteq> d \<and> fst (snd (resourceBigipLtmMonitorRead client d w)) \<noteq> SetId [] d"
  have ok: "snd (fst (Monitors client (remote w))) = None"
  proof (cases "snd (fst (Monitors client (remote w)))")
    case (Some e)
    then show ?thesis using b Read_error [of client w e d] by simp
  qed simp
  with b obtain ms where ms: "fst (fst (Monitors client (remote w))) = Some ms"
    by (cases "fst (fst (Monitors client (remote w)))") (auto simp: Read_result)
  with b ok obtain d' where d': "Read_range ms (resource_id d) d = Some d'"
      "fst (snd (resourceBigipLtmMonitorRead client d w)) = d'"
    by (cases "Read_range ms (resource_id d) d") (auto simp: Read_result)
  from Read_range_Some [OF d'(1)] obtain m where
    m: "m \<in> set ms \<and> FullPath m = resource_id d \<and> d' = d\<lparr>attr_name := FullPath m, attr_parent := ParentMonitor m,
                 attr_defaults_from := DefaultsFrom m, attr_interval := Interval m,
                 attr_timeout := Timeout m, attr_send := SendString m,
                 attr_receive := ReceiveString m, attr_receive_disable := ReceiveDisable m,
                 attr_reverse := Reverse m, attr_transparent := Transparent m,
                 attr_ip_dscp := IPDSCP m, attr_time_until_up := TimeUntilUp m,
                 attr_manual_resume := ManualResume m, attr_destination := Destination m\<rparr>"
    by (rule exE)
  have "Monitors client (remote w) = ((Some ms, None), snd (Monitors client (remote w)))"
    using ok ms by (simp add: prod_eq_iff)
  with m d'(2)
  have "Monitors client (remote w) = ((Some ms, None), snd (Monitors client (remote w)))
            \<and> m \<in> set ms \<and> FullPath m = resource_id d
            \<and> fst (snd (resourceBigipLtmMonitorRead client d w)) = d\<lparr>attr_name := FullPath m, attr_parent := ParentMonitor m,
                 attr_defaults_from := DefaultsFrom m, attr_interval := Interval m,
                 attr_timeout := Timeout m, attr_send := SendString m,
                 attr_receive := ReceiveString m, attr_receive_disable := ReceiveDisable m,
                 attr_reverse := Reverse m, attr_transparent := Transparent m,
                 attr_ip_dscp := IPDSCP m, attr_time_until_up := TimeUntilUp m,
                 attr_manual_resume := ManualResume m, attr_destination := Destination m\<rparr>"
    by simp
  then show "\<exists>ms m. Monitors client (remote w) = ((Some ms, None), snd (Monitors client (remote w)))
            \<and> m \<in> set ms \<and> FullPath m = resource_id d
            \<and> fst (snd (resourceBigipLtmMonitorRead client d w)) = d\<lparr>attr_name := FullPath m, attr_parent := ParentMonitor m,
                 attr_defaults_from := DefaultsFrom m, attr_interval := Interval m,
                 attr_timeout := Timeout m, attr_send := SendString m,
                 attr_receive := ReceiveString m, attr_receive_disable := ReceiveDisable m,
                 attr_reverse := Reverse m, attr_transparent := Transparent m,
                 attr_ip_dscp := IPDSCP m, attr_time_until_up := TimeUntilUp m,
                 attr_manual_resume := ManualResume m, attr_destination := Destination m\<rparr>"
    by (intro exI)
qed

theorem Read_removes_missing_monitor_witness:
  "fst (resourceBigipLtmMonitorRead blank_client web_state (start ())) = None
   \<and> fst (snd (resourceBigipLtmMonitorRead blank_client web_state (start ()))) = SetId [] web_state
   \<and> fst (resourceBigipLtmMonitorRead memory_client web_state
            (start [zero_Monitor\<lparr>FullPath := ''mail''\<rparr>])) = None
   \<and> fst (snd (resourceBigipLtmMonitorRead memory_client web_state
            (start [zero_Monitor\<lparr>FullPath := ''mail''\<rparr>]))) = SetId [] web_state
   \<and> SetId [] web_state \<noteq> web_state
   \<and> attr_interval (fst (snd (resourceBigipLtmMonitorRead memory_client web_state
            (start [zero_Monitor\<lparr>FullPath := ''web'', Interval := 30\<rparr>])))) = 30
   \<and> (\<exists>m. m \<in> set [zero_Monitor\<lparr>FullPath := ''web'', Interval := 30\<rparr>]
        \<and> FullPath m = ''web''
        \<and> attr_interval (fst (snd (resourceBigipLtmMonitorRead memory_client web_state
            (start [zero_Monitor\<lparr>FullPath := ''web'', Interval := 30\<rparr>])))) = Interval m)"
proof -
  let ?dev = "[zero_Monitor\<lparr>FullPath := ''web'', Interval := 30\<rparr>]"
  let ?r = "fst (snd (resourceBigipLtmMonitorRead memory_client web_state (start ?dev)))"
  have a: "snd (fst (Monitors blank_client (remote (start ())))) = None
      \<and> (fst (fst (Monitors blank_client (remote (start ())))) = None
          \<or> (\<exists>ms. fst (fst (Monitors blank_client (remote (start ())))) = Some ms
                \<and> (\<forall>m\<in>set ms. FullPath m \<noteq> resource_id web_state)))"
    by (simp add: blank_client_def)
  have b: "snd (fst (Monitors memory_client (remote (start [zero_Monitor\<lparr>FullPath := ''mail''\<rparr>])))) = None
      \<and> (fst (fst (Monitors memory_client (remote (start [zero_Monitor\<lparr>FullPath := ''mail''\<rparr>])))) = None
          \<or> (\<exists>ms. fst (fst (Monitors memory_client (remote (start [zero_Monitor\<lparr>FullPath := ''mail''\<rparr>]))))
                     = Some ms
                \<and> (\<forall>m\<in>set ms. FullPath m \<noteq> resource_id web_state)))"
    by (simp add: memory_client_def start_def web_state_def web_config_def SetId_def)
  have c: "SetId [] web_state \<noteq> web_state"
    by (simp add: web_state_def web_config_def SetId_def)
  have first: "fst (resourceBigipLtmMonitorRead blank_client web_state (start ())) = None
   \<and> fst (snd (resourceBigipLtmMonitorRead blank_client web_state (start ()))) = SetId [] web_state
   \<and> fst (resourceBigipLtmMonitorRead memory_client web_state
            (start [zero_Monitor\<lparr>FullPath := ''mail''\<rparr>])) = None
   \<and> fst (snd (resourceBigipLtmMonitorRead memory_client web_state
            (start [zero_Monitor\<lparr>FullPath := ''mail''\<rparr>]))) = SetId [] web_state"
    using a b
      Read_removes_missing_monitor [of blank_client "start ()" web_state]
      Read_removes_missing_monitor [of memory_client "start [zero_Monitor\<lparr>FullPath := ''mail''\<rparr>]" web_state]
    by blast
  have mon: "Monitors memory_client (remote (start ?dev)) = ((Some ?dev, None), ?dev)"
    by (simp add: memory_client_def start_def)
  have ok: "snd (fst (Monitors memory_client (remote (start ?dev)))) = None"
    by (simp add: mon)
  have i: "attr_interval ?r = 30" and j: "resource_id ?r = ''web''"
    by (simp_all only: Read_result [OF ok, of web_state] mon)
       (simp_all add: web_state_def web_config_def SetId_def zero_Monitor_def)
  have "attr_interval web_state = 5" "resource_id (SetId [] web_state) = []"
    by (simp_all add: web_state_def web_config_def SetId_def)
  with i j have "?r \<noteq> web_state \<and> ?r \<noteq> SetId [] web_state"
    by auto
  with Read_removes_missing_monitor [of memory_client "start ?dev" web_state]
  obtain ms m where m: "Monitors memory_client (remote (start ?dev))
        = ((Some ms, None), snd (Monitors memory_client (remote (start ?dev))))"
      "m \<in> set ms" "FullPath m = resource_id web_state"
      "?r = web_state\<lparr>attr_name := FullPath m, attr_parent := ParentMonitor m,
                 attr_defaults_from := DefaultsFrom m, attr_interval := Interval m,
                 attr_timeout := Timeout m, attr_send := SendString m,
                 attr_receive := ReceiveString m, attr_receive_disable := ReceiveDisable m,
                 attr_reverse := Reverse m, attr_transparent := Transparent m,
                 attr_ip_dscp := IPDSCP m, attr_time_until_up := TimeUntilUp m,
                 attr_manual_resume := ManualResume m, attr_destination := Destination m\<rparr>"
    by blast
  from m(1) mon have "ms = ?dev" by simp
  with m(2) have "m \<in> set ?dev" by simp
  moreover from m(3) have "FullPath m = ''web''"
    by (simp add: web_state_def SetId_def)
  moreover from m(4) have "attr_interval ?r = Interval m" by simp
  ultimately have "\<exists>m. m \<in> set ?dev \<and> FullPath m = ''web'' \<and> attr_interval ?r = Interval m"
    by blast
  with first c i show ?thesis by simp
qed

subsection \<open>Delete\<close>

text \<open>
  C9. When \<open>DeleteMonitor\<close> succeeds, \<open>Delete\<close> returns no error and the resource data
  with the Id set to the empty string. When it returns an error, \<open>Delete\<close> returns an
  error and the resource data, its Id and every configuration field, as it was.
\<close>

theorem Delete_clears_id_only_on_success:
  "(fst (DeleteMonitor client (resource_id d) (monitorParent (attr_parent d)) (remote w)) = None
      \<longrightarrow> fst (resourceBigipLtmMonitorDelete client d w) = None
          \<and> fst (snd (resourceBigipLtmMonitorDelete client d w)) = SetId [] d)
   \<and> (fst (DeleteMonitor client (resource_id d) (monitorParent (attr_parent d)) (remote w)) \<noteq> None
      \<longrightarrow> fst (resourceBigipLtmMonitorDelete client d w) \<noteq> None
          \<and> fst (snd (resourceBigipLtmMonitorDelete client d w)) = d)"
  using Delete_ok [of client d w] Delete_error [of client d w] by auto

theorem Delete_clears_id_only_on_success_witness:
  "fst (resourceBigipLtmMonitorDelete unreachable_client web_state (start ())) \<noteq> None
   \<and> fst (snd (resourceBigipLtmMonitorDelete unreachable_client web_state (start ()))) = web_state
   \<and> resource_id web_state = ''web''
   \<and> fst (resourceBigipLtmMonitorDelete memory_client web_state
            (start [zero_Monitor\<lparr>FullPath := ''web''\<rparr>])) = None
   \<and> fst (snd (resourceBigipLtmMonitorDelete memory_client web_state
            (start [zero_Monitor\<lparr>FullPath := ''web''\<rparr>]))) = SetId [] web_state"
proof -
  have a: "fst (DeleteMonitor unreachable_client (resource_id web_state)
             (monitorParent (attr_parent web_state)) (remote (start ()))) \<noteq> None"
    by (simp add: unreachable_client_def)
  have b: "fst (DeleteMonitor memory_client (resource_id web_state)
             (monitorParent (attr_parent web_state))
             (remote (start [zero_Monitor\<lparr>FullPath := ''web''\<rparr>]))) = None"
    by (simp add: memory_client_def start_def web_state_def web_config_def SetId_def)
  have c: "resource_id web_state = ''web''"
    by (simp add: web_state_def SetId_def)
  show ?thesis
    using a b c
      Delete_clears_id_only_on_success [of unreachable_client web_state "start ()"]
      Delete_clears_id_only_on_success [of memory_client web_state
         "start [zero_Monitor\<lparr>FullPath := ''web''\<rparr>]"]
    by blast
qed

end
